theory Spec2Isabelle
  imports Complex_Main "HOL-Library.Sublist"
begin

section \<open>JavaScript values and effects\<close>

text \<open>
  The provider utilities of the repository (\<^verbatim>\<open>claude_code_utils.ts\<close>, the handler
  \<^verbatim>\<open>local_model_claudecode_handler.ts\<close>, \<^verbatim>\<open>claude_code_provider.ts\<close> and
  \<^verbatim>\<open>ollama_provider.ts\<close>) are embedded as functions over an immutable description of
  the machine (\<open>env\<close>: what the filesystem, the process table and the process
  environment would answer) and a mutable program state (\<open>st\<close>: the module variable
  \<^verbatim>\<open>manualClaudeCodePath\<close> and the trace of the effects performed so far).
  A JavaScript exception is the left summand of the result. Calls to the logger are
  left out: they neither return a value that is used nor touch the state.
\<close>

text \<open>
  A thrown JavaScript value, as far as the code looks at it: \<^verbatim>\<open>error?.message\<close>
  (absent when the thrown value has no such property) and \<^verbatim>\<open>String(error)\<close>.
\<close>

record js_error =
  message :: "string option"
  to_string :: string

text \<open>\<^verbatim>\<open>new Error(msg)\<close>: its message is \<open>msg\<close>, and it prints as \<^verbatim>\<open>Error: msg\<close>.\<close>

definition new_Error :: "string \<Rightarrow> js_error" where
  "new_Error msg = \<lparr>message = Some msg, to_string = ''Error: '' @ msg\<rparr>"

text \<open>The values \<^verbatim>\<open>JSON.parse\<close> can produce. An object lists its own properties in
  the order \<^verbatim>\<open>Object.keys\<close> enumerates them, each key once.\<close>

datatype json =
    JNull
  | JBool bool
  | JNum rat
  | JStr string
  | JArr "json list"
  | JObj "(string \<times> json) list"

text \<open>The values of \<^verbatim>\<open>os.platform()\<close>.\<close>

datatype platform = Aix | Android | Darwin | FreeBSD | Linux | OpenBSD | SunOS | Win32

datatype event =
    Exists string
  | Exec string
  | Readdir string
  | Stat string
  | ReadFile string

record env =
  fs_exists :: "string \<Rightarrow> bool"
  fs_readdir :: "string \<Rightarrow> js_error + string list"
  fs_isDirectory :: "string \<Rightarrow> js_error + bool"
  fs_readFile :: "string \<Rightarrow> js_error + string"
  json_parse :: "string \<Rightarrow> js_error + json"
  exec_result :: "string \<Rightarrow> js_error + string"
  os_platform :: platform
  os_homedir :: string
  path_join :: "string list \<Rightarrow> string"
  env_CLAUDE_CODE_PORT :: "string option"

record st =
  manualClaudeCodePath :: "string option"
  trace :: "event list"

type_synonym 'a io = "st \<Rightarrow> (js_error + 'a) \<times> st"

definition io_return :: "'a \<Rightarrow> 'a io" where
  "io_return x = (\<lambda>s. (Inr x, s))"

definition io_throw :: "js_error \<Rightarrow> 'a io" where
  "io_throw e = (\<lambda>s. (Inl e, s))"

definition io_bind :: "'a io \<Rightarrow> ('a \<Rightarrow> 'b io) \<Rightarrow> 'b io" where
  "io_bind m f = (\<lambda>s. case m s of (Inl e, s') \<Rightarrow> (Inl e, s') | (Inr x, s') \<Rightarrow> f x s')"

text \<open>\<^verbatim>\<open>try { m } catch (e) { h e }\<close>\<close>

definition io_try :: "'a io \<Rightarrow> (js_error \<Rightarrow> 'a io) \<Rightarrow> 'a io" where
  "io_try m h = (\<lambda>s. case m s of (Inl e, s') \<Rightarrow> h e s' | (Inr x, s') \<Rightarrow> (Inr x, s'))"

definition emit :: "event \<Rightarrow> unit io" where
  "emit ev = (\<lambda>s. (Inr (), s\<lparr>trace := trace s @ [ev]\<rparr>))"

definition io_lift :: "js_error + 'a \<Rightarrow> 'a io" where
  "io_lift r = (case r of Inl e \<Rightarrow> io_throw e | Inr x \<Rightarrow> io_return x)"

subsection \<open>The Node primitives the code calls\<close>

text \<open>\<^verbatim>\<open>existsSync\<close> answers false instead of throwing.\<close>

definition existsSync :: "env \<Rightarrow> string \<Rightarrow> bool io" where
  "existsSync env p = io_bind (emit (Exists p)) (\<lambda>_. io_return (fs_exists env p))"

definition execSync :: "env \<Rightarrow> string \<Rightarrow> string io" where
  "execSync env cmd = io_bind (emit (Exec cmd)) (\<lambda>_. io_lift (exec_result env cmd))"

definition readdirSync :: "env \<Rightarrow> string \<Rightarrow> string list io" where
  "readdirSync env p = io_bind (emit (Readdir p)) (\<lambda>_. io_lift (fs_readdir env p))"

text \<open>\<^verbatim>\<open>statSync(p).isDirectory()\<close>\<close>

definition statSync_isDirectory :: "env \<Rightarrow> string \<Rightarrow> bool io" where
  "statSync_isDirectory env p = io_bind (emit (Stat p)) (\<lambda>_. io_lift (fs_isDirectory env p))"

definition readFileSync :: "env \<Rightarrow> string \<Rightarrow> string io" where
  "readFileSync env p = io_bind (emit (ReadFile p)) (\<lambda>_. io_lift (fs_readFile env p))"

definition JSON_parse :: "env \<Rightarrow> string \<Rightarrow> json io" where
  "JSON_parse env txt = io_lift (json_parse env txt)"

subsection \<open>Strings\<close>

text \<open>A string is the sequence of the bytes of its UTF-8 encoding. The white space
  and line terminators \<^verbatim>\<open>String.prototype.trim\<close> removes, in that encoding: U+0009 to
  U+000D, U+0020, U+00A0, U+1680, U+2000 to U+200A, U+2028, U+2029, U+202F, U+205F,
  U+3000 and U+FEFF.\<close>

definition white_space :: "string list" where
  "white_space =
     [[CHR 0x09], [CHR 0x0A], [CHR 0x0B], [CHR 0x0C], [CHR 0x0D], [CHR 0x20],
      [CHR 0xC2, CHR 0xA0],
      [CHR 0xE1, CHR 0x9A, CHR 0x80],
      [CHR 0xE2, CHR 0x80, CHR 0x80], [CHR 0xE2, CHR 0x80, CHR 0x81],
      [CHR 0xE2, CHR 0x80, CHR 0x82], [CHR 0xE2, CHR 0x80, CHR 0x83],
      [CHR 0xE2, CHR 0x80, CHR 0x84], [CHR 0xE2, CHR 0x80, CHR 0x85],
      [CHR 0xE2, CHR 0x80, CHR 0x86], [CHR 0xE2, CHR 0x80, CHR 0x87],
      [CHR 0xE2, CHR 0x80, CHR 0x88], [CHR 0xE2, CHR 0x80, CHR 0x89],
      [CHR 0xE2, CHR 0x80, CHR 0x8A],
      [CHR 0xE2, CHR 0x80, CHR 0xA8], [CHR 0xE2, CHR 0x80, CHR 0xA9],
      [CHR 0xE2, CHR 0x80, CHR 0xAF],
      [CHR 0xE2, CHR 0x81, CHR 0x9F],
      [CHR 0xE3, CHR 0x80, CHR 0x80],
      [CHR 0xEF, CHR 0xBB, CHR 0xBF]]"

text \<open>Removing white space from the start and from the end, one character at a
  time.\<close>

function trimStart :: "string \<Rightarrow> string" where
  "trimStart s =
     (case find (\<lambda>w. prefix w s) white_space of
        None \<Rightarrow> s
      | Some w \<Rightarrow> trimStart (drop (length w) s))"
  by pat_completeness auto
termination
proof (relation "measure length")
  show "wf (measure length)" by simp
next
  fix s w
  assume "find (\<lambda>w. prefix w s) white_space = Some w"
  then have "w \<in> set white_space" and p: "prefix w s"
    by (auto simp: find_Some_iff)
  then have "w \<noteq> []" by (auto simp: white_space_def)
  with p have "0 < length w" "length w \<le> length s" by (auto simp: prefix_def)
  then have "length s - length w < length s" by arith
  then show "(drop (length w) s, s) \<in> measure length" by simp
qed

function trimEnd :: "string \<Rightarrow> string" where
  "trimEnd s =
     (case find (\<lambda>w. suffix w s) white_space of
        None \<Rightarrow> s
      | Some w \<Rightarrow> trimEnd (take (length s - length w) s))"
  by pat_completeness auto
termination
proof (relation "measure length")
  show "wf (measure length)" by simp
next
  fix s w
  assume "find (\<lambda>w. suffix w s) white_space = Some w"
  then have "w \<in> set white_space" and p: "suffix w s"
    by (auto simp: find_Some_iff)
  then have "w \<noteq> []" by (auto simp: white_space_def)
  with p have "0 < length w" "length w \<le> length s" by (auto simp: suffix_def)
  then have "length s - length w < length s" by arith
  then show "(take (length s - length w) s, s) \<in> measure length" by simp
qed

declare trimStart.simps [simp del] trimEnd.simps [simp del]

definition trim :: "string \<Rightarrow> string" where
  "trim s = trimEnd (trimStart s)"

text \<open>\<^verbatim>\<open>s.includes(sub)\<close>\<close>

fun str_includes :: "string \<Rightarrow> string \<Rightarrow> bool" where
  "str_includes [] sub = (sub = [])"
| "str_includes (c # cs) sub = (prefix sub (c # cs) \<or> str_includes cs sub)"

text \<open>\<^verbatim>\<open>s.endsWith(suf)\<close>\<close>

definition endsWith :: "string \<Rightarrow> string \<Rightarrow> bool" where
  "endsWith s suf = suffix suf s"

text \<open>Truthiness of a value of type \<^verbatim>\<open>string | null\<close>: null and the empty string
  are falsy.\<close>

definition truthy_str :: "string option \<Rightarrow> bool" where
  "truthy_str v = (case v of None \<Rightarrow> False | Some p \<Rightarrow> p \<noteq> [])"

section \<open>Detection of the Claude Code executable\<close>

text \<open>\<^verbatim>\<open>CLAUDE_CODE_PATHS[currentPlatform] || []\<close>: the table has the keys
  \<^verbatim>\<open>darwin\<close>, \<^verbatim>\<open>linux\<close> and \<^verbatim>\<open>win32\<close>
  (\<open>CHR 0x5C\<close> is the backslash of the Windows path).\<close>

definition unix_paths :: "env \<Rightarrow> string list" where
  "unix_paths env =
     [path_join env [os_homedir env, ''.claude/claude''],
      path_join env [os_homedir env, ''.claude/bin/claude''],
      ''/usr/local/bin/claude'',
      path_join env [os_homedir env, ''.local/bin/claude''],
      path_join env [os_homedir env, ''bin/claude'']]"

definition CLAUDE_CODE_PATHS :: "env \<Rightarrow> platform \<Rightarrow> string list" where
  "CLAUDE_CODE_PATHS env pf =
     (case pf of
        Darwin \<Rightarrow> unix_paths env
      | Linux \<Rightarrow> unix_paths env
      | Win32 \<Rightarrow> [''C:'' @ [CHR 0x5C] @ ''Windows'' @ [CHR 0x5C] @ ''System32'' @ [CHR 0x5C] @ ''wsl.exe'']
      | _ \<Rightarrow> [])"

definition setManualClaudeCodePath :: "string option \<Rightarrow> unit io" where
  "setManualClaudeCodePath path = (\<lambda>s. (Inr (), s\<lparr>manualClaudeCodePath := path\<rparr>))"

definition getManualClaudeCodePath :: "string option io" where
  "getManualClaudeCodePath = (\<lambda>s. (Inr (manualClaudeCodePath s), s))"

text \<open>The loop \<^verbatim>\<open>for (const path of paths) if (existsSync(path)) return path\<close>.\<close>

fun first_existing :: "env \<Rightarrow> string list \<Rightarrow> string option io" where
  "first_existing env [] = io_return None"
| "first_existing env (p # ps) =
     io_bind (existsSync env p) (\<lambda>b. if b then io_return (Some p) else first_existing env ps)"

text \<open>The fallback probe \<^verbatim>\<open>which claude\<close> with its \<^verbatim>\<open>try\<close>/\<^verbatim>\<open>catch\<close>; \<open>None\<close>
  when control falls out of the \<^verbatim>\<open>try\<close> statement.\<close>

definition which_probe :: "env \<Rightarrow> string option io" where
  "which_probe env =
     io_try
       (io_bind (execSync env ''which claude'') (\<lambda>out.
          let whichResult = trim out in
          if whichResult \<noteq> [] then
            io_bind (existsSync env whichResult) (\<lambda>b.
              io_return (if b then Some whichResult else None))
          else io_return None))
       (\<lambda>error. io_return None)"

definition detectClaudeCodePath :: "env \<Rightarrow> string option io" where
  "detectClaudeCodePath env =
     io_bind getManualClaudeCodePath (\<lambda>manual.
     io_bind (if truthy_str manual then existsSync env (the manual) else io_return False) (\<lambda>ok.
       if ok then io_return manual
       else if os_platform env = Win32 then io_return None
       else
         io_bind (first_existing env (CLAUDE_CODE_PATHS env (os_platform env))) (\<lambda>found.
           case found of
             Some p \<Rightarrow> io_return (Some p)
           | None \<Rightarrow> which_probe env)))"

definition isClaudeCodeInstalled :: "env \<Rightarrow> bool io" where
  "isClaudeCodeInstalled env =
     io_bind (detectClaudeCodePath env) (\<lambda>p. io_return (p \<noteq> None))"

text \<open>\<^verbatim>\<open>process.env.CLAUDE_CODE_PORT || CLAUDE_CODE_DEFAULT_PORT\<close>, printed into the
  template string.\<close>

definition CLAUDE_CODE_DEFAULT_PORT :: string where
  "CLAUDE_CODE_DEFAULT_PORT = ''3000''"

definition getClaudeCodeBaseUrl :: "env \<Rightarrow> string" where
  "getClaudeCodeBaseUrl env =
     (let port = (if truthy_str (env_CLAUDE_CODE_PORT env)
                  then the (env_CLAUDE_CODE_PORT env) else CLAUDE_CODE_DEFAULT_PORT)
      in ''http://localhost:'' @ port)"

text \<open>The command \<^verbatim>\<open>"${claudePath}" --version\<close> (\<open>CHR 0x22\<close> is the double quote).\<close>

definition version_command :: "string \<Rightarrow> string" where
  "version_command claudePath = [CHR 0x22] @ claudePath @ [CHR 0x22] @ '' --version''"

definition getClaudeCodeVersion :: "env \<Rightarrow> string option io" where
  "getClaudeCodeVersion env =
     io_bind (detectClaudeCodePath env) (\<lambda>claudePath.
       if \<not> truthy_str claudePath then io_return None
       else
         io_try
           (io_bind (execSync env (version_command (the claudePath))) (\<lambda>out.
              io_return (Some (trim out))))
           (\<lambda>error. io_return None))"

section \<open>Installing and updating\<close>

record cmd_result =
  success :: bool
  "output" :: string
  error :: "string option"

text \<open>\<^verbatim>\<open>error?.message || String(error)\<close>\<close>

definition errorMessage :: "js_error \<Rightarrow> string" where
  "errorMessage e = (if truthy_str (message e) then the (message e) else to_string e)"

definition installClaudeCode :: "env \<Rightarrow> bool \<Rightarrow> cmd_result io" where
  "installClaudeCode env useSudo =
     io_try
       (let installCommand =
              (if useSudo then ''sudo npm install -g @anthropic-ai/claude-code''
               else ''npm install -g @anthropic-ai/claude-code'')
        in io_bind (execSync env installCommand) (\<lambda>out.
             io_return \<lparr>success = True, output = trim out, error = None\<rparr>))
       (\<lambda>e.
          if str_includes (errorMessage e) ''EACCES''
               \<or> str_includes (errorMessage e) ''permission denied''
          then io_return
                 \<lparr>success = False, output = [],
                  error = Some ''Permission denied. Please try again with sudo (requires password).''\<rparr>
          else io_return \<lparr>success = False, output = [], error = Some (errorMessage e)\<rparr>)"

definition updateClaudeCode :: "env \<Rightarrow> cmd_result io" where
  "updateClaudeCode env =
     io_bind (detectClaudeCodePath env) (\<lambda>claudePath.
       if \<not> truthy_str claudePath then
         io_return \<lparr>success = False, output = [], error = Some ''Claude Code is not installed''\<rparr>
       else
         io_try
           (io_bind (execSync env ''clu update'') (\<lambda>out.
              io_return \<lparr>success = True, output = trim out, error = None\<rparr>))
           (\<lambda>e. io_return \<lparr>success = False, output = [], error = Some (errorMessage e)\<rparr>))"

section \<open>Capabilities\<close>

text \<open>The fields hold what the code stores in them at run time: directory names as
  JSON strings, and whatever \<^verbatim>\<open>settings.json\<close> lists.\<close>

record ClaudeCodeCapabilities =
  mcpServers :: "json list"
  skills :: "json list"
  plugins :: "json list"
  agents :: "json list"
  subAgents :: "json list"
  models :: "json list"

text \<open>The callback of \<^verbatim>\<open>filter\<close> in \<^verbatim>\<open>listDirectories\<close>, with its own
  \<^verbatim>\<open>try\<close>/\<^verbatim>\<open>catch\<close>, run over the entries in order.\<close>

fun filter_directories :: "env \<Rightarrow> string \<Rightarrow> string list \<Rightarrow> string list io" where
  "filter_directories env dirPath [] = io_return []"
| "filter_directories env dirPath (item # items) =
     io_bind
       (io_try (statSync_isDirectory env (path_join env [dirPath, item]))
               (\<lambda>e. io_return False))
       (\<lambda>keep.
          io_bind (filter_directories env dirPath items) (\<lambda>rest.
            io_return (if keep then item # rest else rest)))"

definition listDirectories :: "env \<Rightarrow> string \<Rightarrow> string list io" where
  "listDirectories env dirPath =
     io_try
       (io_bind (existsSync env dirPath) (\<lambda>b.
          if \<not> b then io_return []
          else io_bind (readdirSync env dirPath) (filter_directories env dirPath)))
       (\<lambda>error. io_return [])"

text \<open>\<^verbatim>\<open>readClaudeCodeSettings\<close> returns the parsed value or \<^verbatim>\<open>null\<close>, here
  \<open>JNull\<close>.\<close>

definition readClaudeCodeSettings :: "env \<Rightarrow> json io" where
  "readClaudeCodeSettings env =
     io_try
       (let settingsPath = path_join env [os_homedir env, ''.claude'', ''settings.json'']
        in io_bind (existsSync env settingsPath) (\<lambda>b.
             if b then io_bind (readFileSync env settingsPath) (JSON_parse env)
             else io_return JNull))
       (\<lambda>error. io_return JNull)"

definition getClaudeCodeSettings :: "env \<Rightarrow> json io" where
  "getClaudeCodeSettings env = readClaudeCodeSettings env"

text \<open>Truthiness of a JSON value.\<close>

fun truthy :: "json \<Rightarrow> bool" where
  "truthy JNull = False"
| "truthy (JBool b) = b"
| "truthy (JNum r) = (r \<noteq> 0)"
| "truthy (JStr s) = (s \<noteq> [])"
| "truthy (JArr xs) = True"
| "truthy (JObj kvs) = True"

text \<open>Reading the property \<^verbatim>\<open>models\<close> or \<^verbatim>\<open>mcpServers\<close> of a parsed value that is
  not null: only an object can have it; \<open>None\<close> is \<^verbatim>\<open>undefined\<close>.\<close>

fun get_prop :: "json \<Rightarrow> string \<Rightarrow> json option" where
  "get_prop (JObj kvs) k = map_of kvs k"
| "get_prop v k = None"

text \<open>\<^verbatim>\<open>s.length\<close> counts UTF-16 code units: in the UTF-8 encoding a continuation
  byte starts none, the first byte of a four-byte sequence starts two, every other byte
  one.\<close>

definition js_length :: "string \<Rightarrow> nat" where
  "js_length s =
     sum_list (map (\<lambda>c. let n = (of_char c :: nat) in
                          if 128 \<le> n \<and> n < 192 then 0 else if 240 \<le> n then 2 else 1) s)"

text \<open>Decimal numerals, for the index keys of strings and arrays.\<close>

fun show_nat :: "nat \<Rightarrow> string" where
  "show_nat n =
     (if n < 10 then [char_of (48 + n)]
      else show_nat (n div 10) @ [char_of (48 + n mod 10)])"

text \<open>\<^verbatim>\<open>Object.keys(v)\<close>: throws on \<^verbatim>\<open>null\<close>; a string or an array has its indices
  as keys, a number or a boolean has none.\<close>

fun Object_keys :: "json \<Rightarrow> string list io" where
  "Object_keys JNull =
     io_throw \<lparr>message = Some ''Cannot convert undefined or null to object'',
               to_string = ''TypeError: Cannot convert undefined or null to object''\<rparr>"
| "Object_keys (JObj kvs) = io_return (map fst kvs)"
| "Object_keys (JStr s) = io_return (map show_nat [0..<js_length s])"
| "Object_keys (JArr xs) = io_return (map show_nat [0..<length xs])"
| "Object_keys v = io_return []"

text \<open>\<^verbatim>\<open>Array.isArray(v)\<close>, for a property that may be \<^verbatim>\<open>undefined\<close>.\<close>

fun isArray :: "json \<Rightarrow> bool" where
  "isArray (JArr xs) = True"
| "isArray v = False"

fun array_items :: "json \<Rightarrow> json list" where
  "array_items (JArr xs) = xs"
| "array_items v = []"

text \<open>The block \<^verbatim>\<open>if (settings) { ... }\<close> of \<^verbatim>\<open>detectClaudeCodeCapabilities\<close>.\<close>

definition apply_settings :: "json \<Rightarrow> ClaudeCodeCapabilities \<Rightarrow> ClaudeCodeCapabilities io" where
  "apply_settings settings capabilities =
     (if \<not> truthy settings then io_return capabilities
      else
        let c1 = (case get_prop settings ''models'' of
                    None \<Rightarrow> capabilities
                  | Some v \<Rightarrow>
                      if truthy v \<and> isArray v then capabilities\<lparr>models := array_items v\<rparr>
                      else capabilities)
        in case get_prop settings ''mcpServers'' of
             None \<Rightarrow> io_return c1
           | Some v \<Rightarrow>
               if \<not> truthy v then io_return c1
               else if isArray v then io_return (c1\<lparr>mcpServers := array_items v\<rparr>)
               else io_bind (Object_keys v) (\<lambda>ks. io_return (c1\<lparr>mcpServers := map JStr ks\<rparr>)))"

definition empty_capabilities :: ClaudeCodeCapabilities where
  "empty_capabilities =
     \<lparr>mcpServers = [], skills = [], plugins = [], agents = [], subAgents = [], models = []\<rparr>"

text \<open>One directory group: \<^verbatim>\<open>if (existsSync(dir)) capabilities.g = listDirectories(dir)\<close>;
  \<open>None\<close> when the field is left as it was.\<close>

definition scan_group :: "env \<Rightarrow> string \<Rightarrow> string list option io" where
  "scan_group env dir =
     io_bind (existsSync env dir) (\<lambda>b.
       if b then io_bind (listDirectories env dir) (\<lambda>names. io_return (Some names))
       else io_return None)"

definition detectClaudeCodeCapabilities :: "env \<Rightarrow> ClaudeCodeCapabilities option io" where
  "detectClaudeCodeCapabilities env =
     io_bind (detectClaudeCodePath env) (\<lambda>claudePath.
       if \<not> truthy_str claudePath then io_return None
       else
         io_try
           (let claudeDir = path_join env [os_homedir env, ''.claude''] in
            io_bind (existsSync env claudeDir) (\<lambda>b.
              if \<not> b then io_return None
              else
                let capabilities = empty_capabilities;
                    agentsDir = path_join env [claudeDir, ''agents''] in
                io_bind (scan_group env agentsDir) (\<lambda>a.
                  let capabilities =
                        (case a of None \<Rightarrow> capabilities
                         | Some names \<Rightarrow> capabilities\<lparr>agents := map JStr names\<rparr>);
                      pluginsDir = path_join env [claudeDir, ''plugins''] in
                  io_bind (scan_group env pluginsDir) (\<lambda>pl.
                    let capabilities =
                          (case pl of None \<Rightarrow> capabilities
                           | Some names \<Rightarrow> capabilities\<lparr>plugins := map JStr names\<rparr>) in
                    io_bind (readClaudeCodeSettings env) (\<lambda>settings.
                      io_bind (apply_settings settings capabilities) (\<lambda>capabilities.
                        io_return (Some capabilities)))))))
           (\<lambda>error. io_return None))"

section \<open>The handler\<close>

record LocalModel =
  modelName :: string
  displayName :: string
  provider :: string

definition claude_code_models :: "LocalModel list" where
  "claude_code_models =
     [\<lparr>modelName = ''claude-sonnet-4.5'', displayName = ''Claude Sonnet 4.5'', provider = ''claudecode''\<rparr>,
      \<lparr>modelName = ''claude-sonnet-4'', displayName = ''Claude Sonnet 4'', provider = ''claudecode''\<rparr>,
      \<lparr>modelName = ''claude-opus-4'', displayName = ''Claude Opus 4'', provider = ''claudecode''\<rparr>,
      \<lparr>modelName = ''claude-haiku-4'', displayName = ''Claude Haiku 4'', provider = ''claudecode''\<rparr>]"

definition fetchClaudeCodeModels :: "env \<Rightarrow> LocalModel list io" where
  "fetchClaudeCodeModels env =
     io_bind (isClaudeCodeInstalled env) (\<lambda>inst.
       if \<not> inst then
         io_throw (new_Error ''Claude Code is not installed. Please install Claude Code CLI first.'')
       else io_return claude_code_models)"

record ClaudeCodeInstallationInfo =
  installed :: bool
  path :: "string option"
  version :: "string option"

definition getClaudeCodeInstallationInfo :: "env \<Rightarrow> ClaudeCodeInstallationInfo io" where
  "getClaudeCodeInstallationInfo env =
     io_bind (detectClaudeCodePath env) (\<lambda>p.
       let inst = (p \<noteq> None) in
       io_bind (if inst then getClaudeCodeVersion env else io_return None) (\<lambda>v.
         io_return \<lparr>installed = inst, path = p, version = v\<rparr>))"

definition getClaudeCodeCapabilities :: "env \<Rightarrow> ClaudeCodeCapabilities option io" where
  "getClaudeCodeCapabilities env = detectClaudeCodeCapabilities env"

definition handleInstallClaudeCode :: "env \<Rightarrow> bool \<Rightarrow> cmd_result io" where
  "handleInstallClaudeCode env useSudo = installClaudeCode env useSudo"

definition handleUpdateClaudeCode :: "env \<Rightarrow> cmd_result io" where
  "handleUpdateClaudeCode env = updateClaudeCode env"

section \<open>Transport adapters\<close>

text \<open>Modelled from the spec: \<^verbatim>\<open>withoutTrailingSlash\<close> is imported from the package
  \<^verbatim>\<open>@ai-sdk/provider-utils\<close>, which is not among the source files. It strips a
  trailing slash: in the package it is \<^verbatim>\<open>url?.replace(/\/$/, '')\<close>, which removes one
  slash at the very end of the string.\<close>

definition withoutTrailingSlash :: "string \<Rightarrow> string" where
  "withoutTrailingSlash url = (if endsWith url ''/'' then butlast url else url)"

record ProviderOptions =
  baseURL :: "string option"
  headers :: "(string \<times> string) list option"

text \<open>The settings handed to \<^verbatim>\<open>createOpenAICompatible\<close>.\<close>

record OpenAICompatibleSettings =
  cfg_name :: string
  cfg_baseURL :: string
  cfg_headers :: "(string \<times> string) list option"

text \<open>\<^verbatim>\<open>options?.baseURL\<close> and \<^verbatim>\<open>options?.headers\<close>\<close>

definition opt_baseURL :: "ProviderOptions option \<Rightarrow> string option" where
  "opt_baseURL options = (case options of None \<Rightarrow> None | Some os \<Rightarrow> baseURL os)"

definition opt_headers :: "ProviderOptions option \<Rightarrow> (string \<times> string) list option" where
  "opt_headers options = (case options of None \<Rightarrow> None | Some os \<Rightarrow> headers os)"

definition createClaudeCodeProvider :: "env \<Rightarrow> ProviderOptions option \<Rightarrow> OpenAICompatibleSettings" where
  "createClaudeCodeProvider env options =
     (let base = withoutTrailingSlash
                   (case opt_baseURL options of Some u \<Rightarrow> u | None \<Rightarrow> getClaudeCodeBaseUrl env);
          v1Base = (if endsWith base ''/v1'' then base else base @ ''/v1'')
      in \<lparr>cfg_name = ''claudecode'', cfg_baseURL = v1Base, cfg_headers = opt_headers options\<rparr>)"

definition createOllamaProvider :: "ProviderOptions option \<Rightarrow> OpenAICompatibleSettings" where
  "createOllamaProvider options =
     (let base = withoutTrailingSlash
                   (case opt_baseURL options of Some u \<Rightarrow> u | None \<Rightarrow> ''http://localhost:11434'');
          v1Base = (if endsWith base ''/v1'' then base else base @ ''/v1'')
      in \<lparr>cfg_name = ''ollama'', cfg_baseURL = v1Base, cfg_headers = opt_headers options\<rparr>)"

section \<open>Session manager\<close>

text \<open>
  Modelled from the spec: the Session Manager (the streaming handlers that own the
  active-session table) is not among the source files, so its operations follow
  sections 3 and 4.6 of the specification. The table holds the registered sessions;
  every operation is one atomic step on it (section 5). The cancel handle and the
  events sent over the boundary are left out.
\<close>

datatype status = Active | Aborted | Completed | Failed

record usage =
  promptTokens :: nat
  completionTokens :: nat
  contextWindow :: nat

record session =
  sessionId :: nat
  conversationId :: nat
  providerId :: string
  status :: status
  startedAt :: nat
  cumulativeUsage :: usage

record manager =
  table :: "session list"
  nextSessionId :: nat

datatype sm_error = ConversationBusy | UnknownSession

text \<open>Modelled from the spec: the active-session table of the Session Manager at
  process start, with no session registered.\<close>

definition init_manager :: manager where
  "init_manager = \<lparr>table = [], nextSessionId = 0\<rparr>"

text \<open>Modelled from the spec: the Active sessions of a conversation, and whether a
  session identifier is registered as Active.\<close>

definition active_for :: "manager \<Rightarrow> nat \<Rightarrow> session list" where
  "active_for m c = filter (\<lambda>x. status x = Active \<and> conversationId x = c) (table m)"

definition is_active :: "manager \<Rightarrow> nat \<Rightarrow> bool" where
  "is_active m sid = list_ex (\<lambda>x. sessionId x = sid \<and> status x = Active) (table m)"

text \<open>Modelled from the spec: a status transition of one session, and its removal from
  the active-session table.\<close>

definition set_status :: "manager \<Rightarrow> nat \<Rightarrow> status \<Rightarrow> manager" where
  "set_status m sid st =
     m\<lparr>table := map (\<lambda>x. if sessionId x = sid then x\<lparr>status := st\<rparr> else x) (table m)\<rparr>"

definition deregister :: "manager \<Rightarrow> nat \<Rightarrow> manager" where
  "deregister m sid = m\<lparr>table := filter (\<lambda>x. sessionId x \<noteq> sid) (table m)\<rparr>"

text \<open>Modelled from the spec: \<open>start\<close> of the Session Manager, which is not among the
  source files. It fails with \<open>ConversationBusy\<close> if an Active session already exists
  for the conversation; otherwise it allocates a fresh identifier and registers the
  session as Active.\<close>

definition start :: "manager \<Rightarrow> nat \<Rightarrow> string \<Rightarrow> nat \<Rightarrow> sm_error + nat \<times> manager" where
  "start m c prov now =
     (if active_for m c \<noteq> [] then Inl ConversationBusy
      else
        let sid = nextSessionId m;
            new = \<lparr>sessionId = sid, conversationId = c, providerId = prov, status = Active,
                   startedAt = now,
                   cumulativeUsage = \<lparr>promptTokens = 0, completionTokens = 0, contextWindow = 0\<rparr>\<rparr>
        in Inr (sid, m\<lparr>table := table m @ [new], nextSessionId := Suc sid\<rparr>))"

text \<open>Modelled from the spec: usage reported by a chunk is accumulated in the token
  counts.\<close>

definition add_usage :: "usage \<Rightarrow> usage \<Rightarrow> usage" where
  "add_usage u d =
     \<lparr>promptTokens = promptTokens u + promptTokens d,
      completionTokens = completionTokens u + completionTokens d,
      contextWindow = contextWindow d\<rparr>"

text \<open>Modelled from the spec: the processing of one delta by the Session Manager, which
  is not among the source files. Usage is added when the chunk carries it; a chunk for a
  session that is no longer registered as Active is discarded.\<close>

definition on_chunk :: "manager \<Rightarrow> nat \<Rightarrow> usage option \<Rightarrow> manager" where
  "on_chunk m sid u =
     (case u of
        None \<Rightarrow> m
      | Some d \<Rightarrow>
          m\<lparr>table := map (\<lambda>x. if sessionId x = sid \<and> status x = Active
                               then x\<lparr>cumulativeUsage := add_usage (cumulativeUsage x) d\<rparr>
                               else x) (table m)\<rparr>)"

text \<open>Modelled from the spec: the natural end of the stream and a transport error in the
  Session Manager, which is not among the source files. Each is the terminal transition
  followed by the deregistration; nothing happens for a session that is not registered
  as Active.\<close>

definition on_end :: "manager \<Rightarrow> nat \<Rightarrow> manager" where
  "on_end m sid = (if is_active m sid then deregister (set_status m sid Completed) sid else m)"

definition on_error :: "manager \<Rightarrow> nat \<Rightarrow> manager" where
  "on_error m sid = (if is_active m sid then deregister (set_status m sid Failed) sid else m)"

text \<open>Modelled from the spec: \<open>abort\<close> of the Session Manager, which is not among the
  source files. It fails with \<open>UnknownSession\<close> if the session is not present or already
  terminal; otherwise the session becomes Aborted and is deregistered at once.\<close>

definition abort :: "manager \<Rightarrow> nat \<Rightarrow> sm_error + manager" where
  "abort m sid =
     (if \<not> is_active m sid then Inl UnknownSession
      else Inr (deregister (set_status m sid Aborted) sid))"

datatype command =
    Start nat string nat
  | Chunk nat "usage option"
  | End nat
  | Abort nat
  | TransportError nat

text \<open>Modelled from the spec: one operation of the Session Manager, which is not among
  the source files; a rejected command leaves the table as it was.\<close>

fun step :: "manager \<Rightarrow> command \<Rightarrow> manager" where
  "step m (Start c prov now) = (case start m c prov now of Inl e \<Rightarrow> m | Inr (sid, m') \<Rightarrow> m')"
| "step m (Chunk sid u) = on_chunk m sid u"
| "step m (End sid) = on_end m sid"
| "step m (Abort sid) = (case abort m sid of Inl e \<Rightarrow> m | Inr m' \<Rightarrow> m')"
| "step m (TransportError sid) = on_error m sid"

text \<open>Modelled from the spec: the reachable states of the Session Manager are the ones
  some sequence of operations leads to from the empty table.\<close>

definition run_commands :: "manager \<Rightarrow> command list \<Rightarrow> manager" where
  "run_commands m cmds = foldl step m cmds"

section \<open>What the procedures compute and which effects they perform\<close>

text \<open>
  For each procedure, the value it returns and the events it appends to the trace, as
  functions of the environment and of the manual path. The lemmas below show that the
  procedures compute exactly these.
\<close>

definition after :: "st \<Rightarrow> event list \<Rightarrow> st" where
  "after s evs = s\<lparr>trace := trace s @ evs\<rparr>"

text \<open>The events a run has appended to the trace of the state it started from.\<close>

definition new_events :: "st \<Rightarrow> st \<Rightarrow> event list" where
  "new_events s s' = drop (length (trace s)) (trace s')"

definition returns :: "'a io \<Rightarrow> st \<Rightarrow> bool" where
  "returns m s = (case fst (m s) of Inl e \<Rightarrow> False | Inr v \<Rightarrow> True)"

text \<open>The effects of detection: existence checks and the probe \<^verbatim>\<open>which claude\<close>.\<close>

fun is_detect_event :: "event \<Rightarrow> bool" where
  "is_detect_event (Exists p) = True"
| "is_detect_event (Exec c) = (c = ''which claude'')"
| "is_detect_event ev = False"

fun probe_events :: "env \<Rightarrow> string list \<Rightarrow> event list" where
  "probe_events env [] = []"
| "probe_events env (p # ps) = Exists p # (if fs_exists env p then [] else probe_events env ps)"

definition which_value :: "env \<Rightarrow> string option" where
  "which_value env =
     (case exec_result env ''which claude'' of
        Inl e \<Rightarrow> None
      | Inr out \<Rightarrow> if trim out \<noteq> [] \<and> fs_exists env (trim out) then Some (trim out) else None)"

definition which_events :: "env \<Rightarrow> event list" where
  "which_events env =
     Exec ''which claude'' #
     (case exec_result env ''which claude'' of
        Inl e \<Rightarrow> []
      | Inr out \<Rightarrow> if trim out \<noteq> [] then [Exists (trim out)] else [])"

definition detect_value :: "env \<Rightarrow> string option \<Rightarrow> string option" where
  "detect_value env manual =
     (if truthy_str manual \<and> fs_exists env (the manual) then manual
      else if os_platform env = Win32 then None
      else case find (fs_exists env) (CLAUDE_CODE_PATHS env (os_platform env)) of
             Some p \<Rightarrow> Some p
           | None \<Rightarrow> which_value env)"

definition detect_events :: "env \<Rightarrow> string option \<Rightarrow> event list" where
  "detect_events env manual =
     (if truthy_str manual then [Exists (the manual)] else []) @
     (if truthy_str manual \<and> fs_exists env (the manual) then []
      else if os_platform env = Win32 then []
      else probe_events env (CLAUDE_CODE_PATHS env (os_platform env)) @
           (case find (fs_exists env) (CLAUDE_CODE_PATHS env (os_platform env)) of
              Some p \<Rightarrow> []
            | None \<Rightarrow> which_events env))"

text \<open>The fallback probe fails: the command fails, prints nothing, or prints a path
  that does not exist.\<close>

definition which_fails :: "env \<Rightarrow> bool" where
  "which_fails env =
     (case exec_result env ''which claude'' of
        Inl e \<Rightarrow> True
      | Inr out \<Rightarrow> trim out = [] \<or> \<not> fs_exists env (trim out))"

definition version_value :: "env \<Rightarrow> string option \<Rightarrow> string option" where
  "version_value env manual =
     (if \<not> truthy_str (detect_value env manual) then None
      else case exec_result env (version_command (the (detect_value env manual))) of
             Inl e \<Rightarrow> None
           | Inr out \<Rightarrow> Some (trim out))"

definition version_events :: "env \<Rightarrow> string option \<Rightarrow> event list" where
  "version_events env manual =
     detect_events env manual @
     (if \<not> truthy_str (detect_value env manual) then []
      else [Exec (version_command (the (detect_value env manual)))])"

text \<open>The directories and the settings file of the capability scan.\<close>

definition claudeDir :: "env \<Rightarrow> string" where
  "claudeDir env = path_join env [os_homedir env, ''.claude'']"

definition agentsDir :: "env \<Rightarrow> string" where
  "agentsDir env = path_join env [claudeDir env, ''agents'']"

definition pluginsDir :: "env \<Rightarrow> string" where
  "pluginsDir env = path_join env [claudeDir env, ''plugins'']"

definition settingsPath :: "env \<Rightarrow> string" where
  "settingsPath env = path_join env [os_homedir env, ''.claude'', ''settings.json'']"

text \<open>The names a directory group is populated with: the entries of the directory
  that are directories themselves; none when the directory is missing or unreadable.\<close>

definition dir_names :: "env \<Rightarrow> string \<Rightarrow> string list" where
  "dir_names env dir =
     (if fs_exists env dir then
        (case fs_readdir env dir of
           Inl e \<Rightarrow> []
         | Inr items \<Rightarrow> filter (\<lambda>item. fs_isDirectory env (path_join env [dir, item]) = Inr True) items)
      else [])"

definition dir_events :: "env \<Rightarrow> string \<Rightarrow> event list" where
  "dir_events env dir =
     Exists dir #
     (if fs_exists env dir then
        Readdir dir #
        (case fs_readdir env dir of
           Inl e \<Rightarrow> []
         | Inr items \<Rightarrow> map (\<lambda>item. Stat (path_join env [dir, item])) items)
      else [])"

definition scan_events :: "env \<Rightarrow> string \<Rightarrow> event list" where
  "scan_events env dir = Exists dir # (if fs_exists env dir then dir_events env dir else [])"

definition settings_value :: "env \<Rightarrow> json" where
  "settings_value env =
     (if fs_exists env (settingsPath env) then
        (case fs_readFile env (settingsPath env) of
           Inl e \<Rightarrow> JNull
         | Inr txt \<Rightarrow> (case json_parse env txt of Inl e \<Rightarrow> JNull | Inr v \<Rightarrow> v))
      else JNull)"

definition settings_events :: "env \<Rightarrow> event list" where
  "settings_events env =
     Exists (settingsPath env) #
     (if fs_exists env (settingsPath env) then [ReadFile (settingsPath env)] else [])"

text \<open>The model and server names listed in the settings.\<close>

definition models_of :: "json \<Rightarrow> json list" where
  "models_of v =
     (case v of
        JObj kvs \<Rightarrow> (case map_of kvs ''models'' of Some (JArr xs) \<Rightarrow> xs | _ \<Rightarrow> [])
      | _ \<Rightarrow> [])"

definition mcpServers_of :: "json \<Rightarrow> json list" where
  "mcpServers_of v =
     (case v of
        JObj kvs \<Rightarrow>
          (case map_of kvs ''mcpServers'' of
             Some (JArr xs) \<Rightarrow> xs
           | Some (JObj kvs') \<Rightarrow> map JStr (map fst kvs')
           | Some (JStr t) \<Rightarrow> map JStr (map show_nat [0..<js_length t])
           | _ \<Rightarrow> [])
      | _ \<Rightarrow> [])"

definition scan_value :: "env \<Rightarrow> ClaudeCodeCapabilities" where
  "scan_value env =
     \<lparr>mcpServers = mcpServers_of (settings_value env),
      skills = [],
      plugins = map JStr (dir_names env (pluginsDir env)),
      agents = map JStr (dir_names env (agentsDir env)),
      subAgents = [],
      models = models_of (settings_value env)\<rparr>"

definition capabilities_value :: "env \<Rightarrow> string option \<Rightarrow> ClaudeCodeCapabilities option" where
  "capabilities_value env manual =
     (if \<not> truthy_str (detect_value env manual) then None
      else if \<not> fs_exists env (claudeDir env) then None
      else Some (scan_value env))"

definition capabilities_events :: "env \<Rightarrow> string option \<Rightarrow> event list" where
  "capabilities_events env manual =
     detect_events env manual @
     (if \<not> truthy_str (detect_value env manual) then []
      else Exists (claudeDir env) #
           (if \<not> fs_exists env (claudeDir env) then []
            else scan_events env (agentsDir env) @ scan_events env (pluginsDir env)
                 @ settings_events env))"

text \<open>The base address as the specification words it: the override if there is one,
  else the default; a slash at the end is dropped; \<^verbatim>\<open>/v1\<close> is appended unless the
  last three characters are \<^verbatim>\<open>/v1\<close> already.\<close>

definition spec_base_address :: "string option \<Rightarrow> string \<Rightarrow> string" where
  "spec_base_address override dflt =
     (let addr = (case override of None \<Rightarrow> dflt | Some u \<Rightarrow> u);
          stripped = (if addr \<noteq> [] \<and> last addr = CHR ''/'' then take (length addr - 1) addr else addr)
      in if drop (length stripped - 3) stripped = ''/v1'' then stripped else stripped @ ''/v1'')"

subsection \<open>Concrete machines\<close>

text \<open>A join that puts a slash between the segments; enough for the paths below.\<close>

definition simple_join :: "string list \<Rightarrow> string" where
  "simple_join xs = concat (map (\<lambda>x. x @ ''/'') (butlast xs)) @ last xs"

text \<open>A Linux machine on which nothing exists and every command fails.\<close>

definition bare_env :: env where
  "bare_env =
     \<lparr>fs_exists = (\<lambda>p. False),
      fs_readdir = (\<lambda>p. Inl (new_Error ''ENOENT'')),
      fs_isDirectory = (\<lambda>p. Inl (new_Error ''ENOENT'')),
      fs_readFile = (\<lambda>p. Inl (new_Error ''ENOENT'')),
      json_parse = (\<lambda>t. Inl (new_Error ''Unexpected token'')),
      exec_result = (\<lambda>c. Inl (new_Error ''Command failed'')),
      os_platform = Linux,
      os_homedir = ''/home/u'',
      path_join = simple_join,
      env_CLAUDE_CODE_PORT = None\<rparr>"

text \<open>Claude Code installed at \<^verbatim>\<open>/usr/local/bin/claude\<close>, nothing else.\<close>

definition installed_env :: env where
  "installed_env = bare_env\<lparr>fs_exists := (\<lambda>p. p = ''/usr/local/bin/claude'')\<rparr>"

text \<open>Claude Code at \<^verbatim>\<open>/opt/claude\<close> as well as at the candidate path
  \<^verbatim>\<open>/usr/local/bin/claude\<close>.\<close>

definition two_installs_env :: env where
  "two_installs_env =
     bare_env\<lparr>fs_exists := (\<lambda>p. p \<in> set [''/opt/claude'', ''/usr/local/bin/claude''])\<rparr>"

text \<open>Installed, with \<^verbatim>\<open>~/.claude\<close> holding an unreadable \<^verbatim>\<open>agents\<close> directory, a
  \<^verbatim>\<open>plugins\<close> directory with the sub-directory \<^verbatim>\<open>fmt\<close> and the file \<^verbatim>\<open>README\<close>, and
  settings that list one model.\<close>

definition scan_env :: env where
  "scan_env =
     bare_env\<lparr>
       fs_exists := (\<lambda>p. p \<in> set [''/usr/local/bin/claude'', ''/home/u/.claude'',
                                   ''/home/u/.claude/agents'', ''/home/u/.claude/plugins'',
                                   ''/home/u/.claude/settings.json'']),
       fs_readdir := (\<lambda>p. if p = ''/home/u/.claude/plugins'' then Inr [''fmt'', ''README'']
                           else Inl (new_Error ''EACCES: permission denied'')),
       fs_isDirectory := (\<lambda>p. Inr (p = ''/home/u/.claude/plugins/fmt'')),
       fs_readFile := (\<lambda>p. Inr ''{}''),
       json_parse := (\<lambda>t. Inr (JObj [(''models'', JArr [JStr ''opus''])]))\<rparr>"

definition fresh_st :: st where
  "fresh_st = \<lparr>manualClaudeCodePath = None, trace = []\<rparr>"

text \<open>The permission-denied signature: the message contains \<^verbatim>\<open>EACCES\<close> or
  \<^verbatim>\<open>permission denied\<close>.\<close>

definition permission_denied :: "string \<Rightarrow> bool" where
  "permission_denied msg =
     ((\<exists>pre post. msg = pre @ ''EACCES'' @ post) \<or>
      (\<exists>pre post. msg = pre @ ''permission denied'' @ post))"

text \<open>A machine on which every command fails with \<^verbatim>\<open>EACCES\<close>.\<close>

definition eacces_env :: env where
  "eacces_env = bare_env\<lparr>exec_result := (\<lambda>c. Inl (new_Error ''npm error code EACCES''))\<rparr>"

section \<open>The procedures compute these values and effects\<close>

lemma after_simps:
  "after (after s e1) e2 = after s (e1 @ e2)" "after s [] = s"
  "manualClaudeCodePath (after s e) = manualClaudeCodePath s"
  "trace (after s e) = trace s @ e"
  by (simp_all add: after_def)

lemma new_events_after: "new_events s (after s evs) = evs"
  by (simp add: new_events_def after_def)

lemma existsSync_apply: "existsSync env p s = (Inr (fs_exists env p), after s [Exists p])"
  by (simp add: existsSync_def io_bind_def emit_def io_return_def after_def)

lemma execSync_apply: "execSync env c s = (exec_result env c, after s [Exec c])"
  by (simp add: execSync_def io_bind_def emit_def io_lift_def io_return_def io_throw_def after_def
      split: sum.splits)

lemma readdirSync_apply: "readdirSync env p s = (fs_readdir env p, after s [Readdir p])"
  by (simp add: readdirSync_def io_bind_def emit_def io_lift_def io_return_def io_throw_def after_def
      split: sum.splits)

lemma statSync_apply: "statSync_isDirectory env p s = (fs_isDirectory env p, after s [Stat p])"
  by (simp add: statSync_isDirectory_def io_bind_def emit_def io_lift_def io_return_def io_throw_def
      after_def split: sum.splits)

lemma readFileSync_apply: "readFileSync env p s = (fs_readFile env p, after s [ReadFile p])"
  by (simp add: readFileSync_def io_bind_def emit_def io_lift_def io_return_def io_throw_def after_def
      split: sum.splits)

lemma JSON_parse_apply: "JSON_parse env txt s = (json_parse env txt, s)"
  by (simp add: JSON_parse_def io_lift_def io_return_def io_throw_def split: sum.splits)

lemma first_existing_apply:
  "first_existing env ps s = (Inr (find (fs_exists env) ps), after s (probe_events env ps))"
  by (induction ps arbitrary: s)
     (simp_all add: io_return_def io_bind_def existsSync_apply after_simps)

lemma which_probe_apply:
  "which_probe env s = (Inr (which_value env), after s (which_events env))"
  by (simp add: which_probe_def which_value_def which_events_def io_try_def io_bind_def
      execSync_apply existsSync_apply io_return_def after_simps Let_def split: sum.splits)

lemma detect_apply:
  "detectClaudeCodePath env s =
     (Inr (detect_value env (manualClaudeCodePath s)),
      after s (detect_events env (manualClaudeCodePath s)))"
  by (simp add: detectClaudeCodePath_def detect_value_def detect_events_def io_bind_def
      getManualClaudeCodePath_def existsSync_apply first_existing_apply which_probe_apply
      io_return_def after_simps split: option.splits)

lemma probe_events_detect: "list_all is_detect_event (probe_events env ps)"
  by (induction ps) simp_all

lemma which_events_detect: "list_all is_detect_event (which_events env)"
  by (simp add: which_events_def split: sum.splits)

lemma detect_events_detect: "list_all is_detect_event (detect_events env m)"
  by (simp add: detect_events_def probe_events_detect which_events_detect split: option.splits)

lemma isInstalled_apply:
  "isClaudeCodeInstalled env s =
     (Inr (detect_value env (manualClaudeCodePath s) \<noteq> None),
      after s (detect_events env (manualClaudeCodePath s)))"
  by (simp add: isClaudeCodeInstalled_def io_bind_def detect_apply io_return_def)

lemma version_apply:
  "getClaudeCodeVersion env s =
     (Inr (version_value env (manualClaudeCodePath s)),
      after s (version_events env (manualClaudeCodePath s)))"
  by (simp add: getClaudeCodeVersion_def version_value_def version_events_def io_bind_def
      io_try_def detect_apply execSync_apply io_return_def after_simps split: sum.splits)

lemma info_apply:
  "getClaudeCodeInstallationInfo env s =
     (Inr \<lparr>installed = (detect_value env (manualClaudeCodePath s) \<noteq> None),
           path = detect_value env (manualClaudeCodePath s),
           version = (if detect_value env (manualClaudeCodePath s) \<noteq> None
                      then version_value env (manualClaudeCodePath s) else None)\<rparr>,
      after s (detect_events env (manualClaudeCodePath s) @
               (if detect_value env (manualClaudeCodePath s) \<noteq> None
                then version_events env (manualClaudeCodePath s) else [])))"
  by (simp add: getClaudeCodeInstallationInfo_def io_bind_def detect_apply version_apply
      io_return_def after_simps Let_def)

lemma detect_value_absent:
  assumes "manual = None" and "\<forall>p\<in>set (CLAUDE_CODE_PATHS env (os_platform env)). \<not> fs_exists env p"
    and "which_fails env"
  shows "detect_value env manual = None"
proof -
  have "find (fs_exists env) (CLAUDE_CODE_PATHS env (os_platform env)) = None"
    using assms(2) by (auto simp: find_None_iff)
  moreover have "which_value env = None"
    using assms(3) by (auto simp: which_value_def which_fails_def split: sum.splits)
  ultimately show ?thesis
    using assms(1) by (simp add: detect_value_def truthy_str_def)
qed

section \<open>Detection\<close>

text \<open>
  Claim C2. Provider detection never throws: on every machine and in every state,
  \<open>detectClaudeCodePath\<close> and \<open>getClaudeCodeInstallationInfo\<close> return a value. When the
  manual override is unset, no candidate path of the platform exists and the fallback
  probe \<^verbatim>\<open>which claude\<close> fails, the installation info is
  \<^verbatim>\<open>{installed: false, path: null, version: null}\<close>.
\<close>

theorem detection_never_throws:
  "returns (detectClaudeCodePath env) s \<and>
   returns (getClaudeCodeInstallationInfo env) s \<and>
   (manualClaudeCodePath s = None \<longrightarrow>
    (\<forall>p\<in>set (CLAUDE_CODE_PATHS env (os_platform env)). \<not> fs_exists env p) \<longrightarrow>
    which_fails env \<longrightarrow>
    fst (getClaudeCodeInstallationInfo env s) = Inr \<lparr>installed = False, path = None, version = None\<rparr>)"
  by (simp add: returns_def detect_apply info_apply detect_value_absent)

theorem detection_never_throws_witness:
  "manualClaudeCodePath fresh_st = None \<and>
   list_all (\<lambda>p. \<not> fs_exists bare_env p) (CLAUDE_CODE_PATHS bare_env (os_platform bare_env)) \<and>
   which_fails bare_env \<and>
   returns (getClaudeCodeInstallationInfo bare_env) fresh_st \<and>
   fst (getClaudeCodeInstallationInfo bare_env fresh_st) = Inr \<lparr>installed = False, path = None, version = None\<rparr>"
proof -
  have h1: "manualClaudeCodePath fresh_st = None" by (simp add: fresh_st_def)
  have h2: "\<forall>p\<in>set (CLAUDE_CODE_PATHS bare_env (os_platform bare_env)). \<not> fs_exists bare_env p"
    by (simp add: bare_env_def)
  have h3: "which_fails bare_env" by (simp add: which_fails_def bare_env_def)
  show ?thesis using detection_never_throws[of bare_env fresh_st] h1 h2 h3
    by (simp add: list_all_iff)
qed


lemma setManual_apply:
  "setManualClaudeCodePath v s = (Inr (), s\<lparr>manualClaudeCodePath := v\<rparr>)"
  by (simp add: setManualClaudeCodePath_def)

section \<open>The manual override\<close>

text \<open>
  Claim C3 says that whenever a manual path has been set, detection returns it in
  preference to the candidates and to the probe. It does not when the manual path does
  not exist on the filesystem: with \<^verbatim>\<open>/opt/claude\<close> set and missing, and Claude Code
  present at \<^verbatim>\<open>/usr/local/bin/claude\<close>, detection returns the latter.
\<close>

theorem manual_path_not_always_returned:
  "fst (detectClaudeCodePath installed_env
         (snd (setManualClaudeCodePath (Some ''/opt/claude'') fresh_st)))
     = Inr (Some ''/usr/local/bin/claude'') \<and>
   fst (detectClaudeCodePath installed_env
         (snd (setManualClaudeCodePath (Some ''/opt/claude'') fresh_st)))
     \<noteq> Inr (Some ''/opt/claude'')"
  by (simp add: detect_apply setManual_apply detect_value_def truthy_str_def installed_env_def
      bare_env_def fresh_st_def CLAUDE_CODE_PATHS_def unix_paths_def simple_join_def)

text \<open>
  Claim C3, amended. \<open>setManualClaudeCodePath\<close> stores the path; in every state whose
  manual path is set, is not empty and exists on the filesystem, detection returns that
  path, and checking its existence is all it does: no candidate is probed and
  \<^verbatim>\<open>which claude\<close> is not run.
\<close>

theorem manual_path_preferred:
  "manualClaudeCodePath (snd (setManualClaudeCodePath (Some p) s0)) = Some p \<and>
   (manualClaudeCodePath s = Some p \<longrightarrow> p \<noteq> [] \<longrightarrow> fs_exists env p \<longrightarrow>
      detectClaudeCodePath env s = (Inr (Some p), after s [Exists p]))"
  by (simp add: detect_apply setManual_apply detect_value_def detect_events_def truthy_str_def)

theorem manual_path_preferred_witness:
  "fs_exists two_installs_env ''/opt/claude'' \<and>
   fs_exists two_installs_env ''/usr/local/bin/claude'' \<and>
   detectClaudeCodePath two_installs_env (snd (setManualClaudeCodePath (Some ''/opt/claude'') fresh_st))
     = (Inr (Some ''/opt/claude''),
        \<lparr>manualClaudeCodePath = Some ''/opt/claude'', trace = [Exists ''/opt/claude'']\<rparr>)"
proof -
  let ?p = "''/opt/claude''"
  let ?s = "snd (setManualClaudeCodePath (Some ?p) fresh_st)"
  have h: "fs_exists two_installs_env ?p" "fs_exists two_installs_env ''/usr/local/bin/claude''"
    by (simp_all add: two_installs_env_def)
  have m: "manualClaudeCodePath ?s = Some ?p"
    by (simp add: setManual_apply)
  have "detectClaudeCodePath two_installs_env ?s = (Inr (Some ?p), after ?s [Exists ?p])"
    using manual_path_preferred[of ?p fresh_st ?s two_installs_env] h(1) m by simp
  with h show ?thesis
    by (simp add: setManual_apply after_def fresh_st_def)
qed

section \<open>Update and install\<close>

lemma update_apply:
  "updateClaudeCode env s =
     (if \<not> truthy_str (detect_value env (manualClaudeCodePath s))
      then (Inr \<lparr>success = False, output = [], error = Some ''Claude Code is not installed''\<rparr>,
            after s (detect_events env (manualClaudeCodePath s)))
      else (Inr (case exec_result env ''clu update'' of
                   Inl e \<Rightarrow> \<lparr>success = False, output = [], error = Some (errorMessage e)\<rparr>
                 | Inr out \<Rightarrow> \<lparr>success = True, output = trim out, error = None\<rparr>),
            after s (detect_events env (manualClaudeCodePath s) @ [Exec ''clu update''])))"
  by (simp add: updateClaudeCode_def io_bind_def io_try_def detect_apply execSync_apply
      io_return_def after_simps split: sum.splits)

lemma detect_event_not_update:
  "list_all is_detect_event evs \<Longrightarrow> Exec ''clu update'' \<notin> set evs"
  by (auto simp: list_all_iff)

text \<open>
  Claim C4. When detection reports the provider absent, \<open>updateClaudeCode\<close> performs the
  detection and nothing else, and returns the failure \<^verbatim>\<open>Claude Code is not installed\<close>;
  the command \<^verbatim>\<open>clu update\<close> is not among the effects of the call.
\<close>

theorem update_not_installed:
  assumes "fst (detectClaudeCodePath env s) = Inr None"
  shows "updateClaudeCode env s =
           (Inr \<lparr>success = False, output = [], error = Some ''Claude Code is not installed''\<rparr>,
            snd (detectClaudeCodePath env s))
         \<and> Exec ''clu update'' \<notin> set (new_events s (snd (updateClaudeCode env s)))"
  using assms detect_event_not_update[OF detect_events_detect]
  by (simp add: update_apply detect_apply truthy_str_def new_events_after)

theorem update_not_installed_witness:
  "fst (detectClaudeCodePath bare_env fresh_st) = Inr None \<and>
   fst (updateClaudeCode bare_env fresh_st) =
      Inr \<lparr>success = False, output = [], error = Some ''Claude Code is not installed''\<rparr> \<and>
   Exec ''clu update'' \<notin> set (new_events fresh_st (snd (updateClaudeCode bare_env fresh_st)))"
proof -
  have h: "fst (detectClaudeCodePath bare_env fresh_st) = Inr None"
    by (simp add: detect_apply detect_value_def truthy_str_def bare_env_def fresh_st_def
        CLAUDE_CODE_PATHS_def unix_paths_def which_value_def)
  from update_not_installed[OF h]
  have a: "updateClaudeCode bare_env fresh_st =
           (Inr \<lparr>success = False, output = [], error = Some ''Claude Code is not installed''\<rparr>,
            snd (detectClaudeCodePath bare_env fresh_st))"
    and b: "Exec ''clu update'' \<notin> set (new_events fresh_st (snd (updateClaudeCode bare_env fresh_st)))"
    by blast+
  from a have "fst (updateClaudeCode bare_env fresh_st) =
      Inr \<lparr>success = False, output = [], error = Some ''Claude Code is not installed''\<rparr>"
    by simp
  with h b show ?thesis by blast
qed


lemma str_includes_iff: "str_includes s sub \<longleftrightarrow> (\<exists>pre post. s = pre @ sub @ post)"
proof (induction s)
  case Nil
  show ?case by auto
next
  case (Cons c cs)
  show ?case
  proof
    assume "str_includes (c # cs) sub"
    then consider "prefix sub (c # cs)" | "str_includes cs sub" by auto
    then show "\<exists>pre post. c # cs = pre @ sub @ post"
    proof cases
      case 1
      then obtain post where "c # cs = sub @ post" by (auto simp: prefix_def)
      then have "c # cs = [] @ sub @ post" by simp
      then show ?thesis by blast
    next
      case 2
      with Cons.IH obtain pre post where "cs = pre @ sub @ post" by blast
      then have "c # cs = (c # pre) @ sub @ post" by simp
      then show ?thesis by blast
    qed
  next
    assume "\<exists>pre post. c # cs = pre @ sub @ post"
    then obtain pre post where e: "c # cs = pre @ sub @ post" by blast
    show "str_includes (c # cs) sub"
    proof (cases pre)
      case Nil
      with e have "prefix sub (c # cs)" by (simp add: prefix_def)
      then show ?thesis by simp
    next
      case (Cons a pre')
      with e have "cs = pre' @ sub @ post" by simp
      with Cons.IH have "str_includes cs sub" by blast
      then show ?thesis by simp
    qed
  qed
qed

lemma permission_denied_code:
  "permission_denied msg = (str_includes msg ''EACCES'' \<or> str_includes msg ''permission denied'')"
  by (simp only: permission_denied_def str_includes_iff)

lemma install_apply:
  "installClaudeCode env useSudo s =
     (Inr (case exec_result env (if useSudo then ''sudo npm install -g @anthropic-ai/claude-code''
                                 else ''npm install -g @anthropic-ai/claude-code'') of
             Inr out \<Rightarrow> \<lparr>success = True, output = trim out, error = None\<rparr>
           | Inl e \<Rightarrow>
               if str_includes (errorMessage e) ''EACCES''
                    \<or> str_includes (errorMessage e) ''permission denied''
               then \<lparr>success = False, output = [],
                     error = Some ''Permission denied. Please try again with sudo (requires password).''\<rparr>
               else \<lparr>success = False, output = [], error = Some (errorMessage e)\<rparr>),
      after s [Exec (if useSudo then ''sudo npm install -g @anthropic-ai/claude-code''
                     else ''npm install -g @anthropic-ai/claude-code'')])"
  by (simp add: installClaudeCode_def io_try_def io_bind_def execSync_apply io_return_def Let_def
      split: sum.splits)

text \<open>
  Claim C5. When the install command fails: if the error message carries the
  permission-denied signature, the result is a failure whose error tells the caller to
  try again with sudo; otherwise it is a failure whose error is the raw message.
\<close>

theorem install_failure_classified:
  assumes "exec_result env (if useSudo then ''sudo npm install -g @anthropic-ai/claude-code''
                            else ''npm install -g @anthropic-ai/claude-code'') = Inl e"
  shows "fst (installClaudeCode env useSudo s) =
           Inr (if permission_denied (errorMessage e)
                then \<lparr>success = False, output = [],
                      error = Some ''Permission denied. Please try again with sudo (requires password).''\<rparr>
                else \<lparr>success = False, output = [], error = Some (errorMessage e)\<rparr>)"
  using assms by (simp add: install_apply permission_denied_code)


theorem install_failure_classified_witness:
  "exec_result eacces_env ''npm install -g @anthropic-ai/claude-code'' = Inl (new_Error ''npm error code EACCES'') \<and>
   fst (installClaudeCode eacces_env False fresh_st) =
     Inr \<lparr>success = False, output = [],
          error = Some ''Permission denied. Please try again with sudo (requires password).''\<rparr> \<and>
   exec_result bare_env ''sudo npm install -g @anthropic-ai/claude-code'' = Inl (new_Error ''Command failed'') \<and>
   fst (installClaudeCode bare_env True fresh_st) =
     Inr \<lparr>success = False, output = [], error = Some ''Command failed''\<rparr>"
proof -
  have h1: "exec_result eacces_env (if False then ''sudo npm install -g @anthropic-ai/claude-code''
              else ''npm install -g @anthropic-ai/claude-code'') = Inl (new_Error ''npm error code EACCES'')"
    by (simp add: eacces_env_def)
  have h2: "exec_result bare_env (if True then ''sudo npm install -g @anthropic-ai/claude-code''
              else ''npm install -g @anthropic-ai/claude-code'') = Inl (new_Error ''Command failed'')"
    by (simp add: bare_env_def)
  have p1: "permission_denied (errorMessage (new_Error ''npm error code EACCES''))"
    by (simp add: permission_denied_code errorMessage_def new_Error_def truthy_str_def)
  have p2: "\<not> permission_denied (errorMessage (new_Error ''Command failed''))"
    by (simp add: permission_denied_code errorMessage_def new_Error_def truthy_str_def)
  have e2: "errorMessage (new_Error ''Command failed'') = ''Command failed''"
    by (simp add: errorMessage_def new_Error_def truthy_str_def)
  show ?thesis
    using install_failure_classified[OF h1, of fresh_st] install_failure_classified[OF h2, of fresh_st]
      h1 h2 p1 p2 e2 by simp
qed

section \<open>Capabilities of a provider that is not installed\<close>

lemma capabilities_absent:
  assumes "detect_value env (manualClaudeCodePath s) = None"
  shows "detectClaudeCodeCapabilities env s = (Inr None, after s (detect_events env (manualClaudeCodePath s)))"
  using assms
  by (simp add: detectClaudeCodeCapabilities_def io_bind_def detect_apply io_return_def truthy_str_def)

text \<open>
  Claim C6. When detection returns no path, \<open>detectClaudeCodeCapabilities\<close> returns
  \<^verbatim>\<open>null\<close> and leaves the state as detection left it: every effect of the call is an
  effect of detection, none a directory listing, a stat or a file read.
\<close>

theorem capabilities_not_installed:
  assumes "fst (detectClaudeCodePath env s) = Inr None"
  shows "detectClaudeCodeCapabilities env s = (Inr None, snd (detectClaudeCodePath env s))
         \<and> list_all is_detect_event (new_events s (snd (detectClaudeCodeCapabilities env s)))"
  using assms
  by (simp add: capabilities_absent detect_apply new_events_after detect_events_detect)

theorem capabilities_not_installed_witness:
  "fst (detectClaudeCodePath bare_env fresh_st) = Inr None \<and>
   fst (detectClaudeCodeCapabilities bare_env fresh_st) = Inr None \<and>
   list_all is_detect_event (new_events fresh_st (snd (detectClaudeCodeCapabilities bare_env fresh_st)))"
proof -
  have h: "fst (detectClaudeCodePath bare_env fresh_st) = Inr None"
    by (simp add: detect_apply detect_value_def truthy_str_def bare_env_def fresh_st_def
        CLAUDE_CODE_PATHS_def unix_paths_def which_value_def)
  from capabilities_not_installed[OF h]
  have a: "detectClaudeCodeCapabilities bare_env fresh_st = (Inr None, snd (detectClaudeCodePath bare_env fresh_st))"
    and b: "list_all is_detect_event (new_events fresh_st (snd (detectClaudeCodeCapabilities bare_env fresh_st)))"
    by blast+
  from a have "fst (detectClaudeCodeCapabilities bare_env fresh_st) = Inr None" by simp
  with h b show ?thesis by blast
qed

section \<open>The model list\<close>

text \<open>
  Claim C9. \<open>fetchClaudeCodeModels\<close> throws when \<open>isClaudeCodeInstalled\<close> answers false,
  and otherwise returns the list of the four models \<^verbatim>\<open>claude-sonnet-4.5\<close>,
  \<^verbatim>\<open>claude-sonnet-4\<close>, \<^verbatim>\<open>claude-opus-4\<close> and \<^verbatim>\<open>claude-haiku-4\<close>, each of the provider
  \<^verbatim>\<open>claudecode\<close>, whatever else the machine and the state hold.
\<close>

theorem fetch_models_fixed_list:
  "(fst (isClaudeCodeInstalled env s) = Inr False \<or> fst (isClaudeCodeInstalled env s) = Inr True) \<and>
   (fst (isClaudeCodeInstalled env s) = Inr False \<longrightarrow>
      fst (fetchClaudeCodeModels env s) =
        Inl (new_Error ''Claude Code is not installed. Please install Claude Code CLI first.'')) \<and>
   (fst (isClaudeCodeInstalled env s) = Inr True \<longrightarrow>
      fst (fetchClaudeCodeModels env s) =
        Inr [\<lparr>modelName = ''claude-sonnet-4.5'', displayName = ''Claude Sonnet 4.5'', provider = ''claudecode''\<rparr>,
             \<lparr>modelName = ''claude-sonnet-4'', displayName = ''Claude Sonnet 4'', provider = ''claudecode''\<rparr>,
             \<lparr>modelName = ''claude-opus-4'', displayName = ''Claude Opus 4'', provider = ''claudecode''\<rparr>,
             \<lparr>modelName = ''claude-haiku-4'', displayName = ''Claude Haiku 4'', provider = ''claudecode''\<rparr>])"
  by (simp add: fetchClaudeCodeModels_def io_bind_def isInstalled_apply io_throw_def io_return_def
      claude_code_models_def)

theorem fetch_models_fixed_list_witness:
  "fst (isClaudeCodeInstalled bare_env fresh_st) = Inr False \<and>
   fst (fetchClaudeCodeModels bare_env fresh_st) =
        Inl (new_Error ''Claude Code is not installed. Please install Claude Code CLI first.'') \<and>
   fst (isClaudeCodeInstalled installed_env fresh_st) = Inr True \<and>
   map modelName (projr (fst (fetchClaudeCodeModels installed_env fresh_st))) =
     [''claude-sonnet-4.5'', ''claude-sonnet-4'', ''claude-opus-4'', ''claude-haiku-4'']"
proof -
  have h1: "fst (isClaudeCodeInstalled bare_env fresh_st) = Inr False"
    by (simp add: isInstalled_apply detect_value_def truthy_str_def bare_env_def fresh_st_def
        CLAUDE_CODE_PATHS_def unix_paths_def which_value_def)
  have h2: "fst (isClaudeCodeInstalled installed_env fresh_st) = Inr True"
    by (simp add: isInstalled_apply detect_value_def truthy_str_def bare_env_def fresh_st_def
        installed_env_def CLAUDE_CODE_PATHS_def unix_paths_def simple_join_def)
  show ?thesis
    using fetch_models_fixed_list[of bare_env fresh_st] fetch_models_fixed_list[of installed_env fresh_st]
      h1 h2 by simp
qed

section \<open>The base address of the transport adapters\<close>

lemma withoutTrailingSlash_eq:
  "withoutTrailingSlash url = (if url \<noteq> [] \<and> last url = CHR ''/'' then take (length url - 1) url else url)"
proof (cases url rule: rev_cases)
  case Nil
  then show ?thesis by (simp add: withoutTrailingSlash_def endsWith_def)
next
  case (snoc ys y)
  then show ?thesis by (auto simp: withoutTrailingSlash_def endsWith_def butlast_conv_take)
qed

lemma endsWith_v1_eq: "endsWith b ''/v1'' \<longleftrightarrow> drop (length b - 3) b = ''/v1''"
proof
  assume "endsWith b ''/v1''"
  then obtain pre where "b = pre @ ''/v1''" by (auto simp: endsWith_def suffix_def)
  then show "drop (length b - 3) b = ''/v1''" by simp
next
  assume d: "drop (length b - 3) b = ''/v1''"
  have "b = take (length b - 3) b @ drop (length b - 3) b" by simp
  with d have "b = take (length b - 3) b @ ''/v1''" by simp
  then show "endsWith b ''/v1''" unfolding endsWith_def suffix_def by blast
qed

lemma v1_suffix: "endsWith (if endsWith b ''/v1'' then b else b @ ''/v1'') ''/v1''"
  by (auto simp: endsWith_def suffix_def)

lemma strip_v1: "withoutTrailingSlash (b @ ''/v1'') = b @ ''/v1''"
  by (simp add: withoutTrailingSlash_def endsWith_def suffix_def)

lemma strip_slash: "withoutTrailingSlash (b @ ''/'') = b"
  by (simp add: withoutTrailingSlash_def endsWith_def butlast_append)

lemma strip_none: "\<not> endsWith u ''/'' \<Longrightarrow> withoutTrailingSlash u = u"
  by (simp add: withoutTrailingSlash_def)

lemma endsWith_v1_append: "endsWith (b @ ''/v1'') ''/v1''"
  by (auto simp: endsWith_def suffix_def)

lemma endsWith_code: "endsWith s suf = prefix (rev suf) (rev s)"
  by (simp add: endsWith_def suffix_to_prefix)

lemma claude_base:
  "cfg_baseURL (createClaudeCodeProvider env (Some \<lparr>baseURL = Some u, headers = h\<rparr>)) =
     (if endsWith (withoutTrailingSlash u) ''/v1'' then withoutTrailingSlash u
      else withoutTrailingSlash u @ ''/v1'')"
  "cfg_baseURL (createClaudeCodeProvider env (Some \<lparr>baseURL = None, headers = h\<rparr>)) =
     cfg_baseURL (createClaudeCodeProvider env None)"
  "cfg_baseURL (createClaudeCodeProvider env None) =
     (if endsWith (withoutTrailingSlash (getClaudeCodeBaseUrl env)) ''/v1''
      then withoutTrailingSlash (getClaudeCodeBaseUrl env)
      else withoutTrailingSlash (getClaudeCodeBaseUrl env) @ ''/v1'')"
  by (simp_all add: createClaudeCodeProvider_def opt_baseURL_def Let_def)

lemma ollama_base:
  "cfg_baseURL (createOllamaProvider (Some \<lparr>baseURL = Some u, headers = h\<rparr>)) =
     (if endsWith (withoutTrailingSlash u) ''/v1'' then withoutTrailingSlash u
      else withoutTrailingSlash u @ ''/v1'')"
  "cfg_baseURL (createOllamaProvider (Some \<lparr>baseURL = None, headers = h\<rparr>)) =
     cfg_baseURL (createOllamaProvider None)"
  "cfg_baseURL (createOllamaProvider None) = ''http://localhost:11434/v1''"
  by (simp_all add: createOllamaProvider_def opt_baseURL_def Let_def withoutTrailingSlash_def
      endsWith_code)

lemma spec_base_address_code:
  "spec_base_address override dflt =
     (let a = withoutTrailingSlash (case override of None \<Rightarrow> dflt | Some u \<Rightarrow> u)
      in if endsWith a ''/v1'' then a else a @ ''/v1'')"
  by (simp add: spec_base_address_def Let_def withoutTrailingSlash_eq[symmetric]
      endsWith_v1_eq[symmetric] split: option.splits)

lemma default_url:
  "getClaudeCodeBaseUrl (env\<lparr>env_CLAUDE_CODE_PORT := None\<rparr>) = ''http://localhost:3000''"
  "getClaudeCodeBaseUrl (env\<lparr>env_CLAUDE_CODE_PORT := Some ''8080''\<rparr>) = ''http://localhost:8080''"
  by (simp_all add: getClaudeCodeBaseUrl_def truthy_str_def CLAUDE_CODE_DEFAULT_PORT_def)

text \<open>
  Claim C8. For every options value, both adapters resolve the base address as the
  configured \<^verbatim>\<open>baseURL\<close> when the options carry one, else the default of the provider
  (\<^verbatim>\<open>http://localhost:11434\<close> for Ollama, \<^verbatim>\<open>http://localhost:\<close> and the port for
  Claude Code), and normalise it as the specification describes: \<^verbatim>\<open>b/v1\<close> and
  \<^verbatim>\<open>b/v1/\<close> become \<^verbatim>\<open>b/v1\<close>, \<^verbatim>\<open>b/\<close> becomes \<^verbatim>\<open>b/v1\<close>, and an address without
  a slash at the end gets \<^verbatim>\<open>/v1\<close> appended. One slash is stripped, not several. The
  resulting address always ends with \<^verbatim>\<open>/v1\<close>.
\<close>

theorem provider_base_url:
  "cfg_baseURL (createClaudeCodeProvider env (Some \<lparr>baseURL = Some u, headers = h\<rparr>))
     = spec_base_address (Some u) (getClaudeCodeBaseUrl env) \<and>
   cfg_baseURL (createClaudeCodeProvider env (Some \<lparr>baseURL = None, headers = h\<rparr>))
     = spec_base_address None (getClaudeCodeBaseUrl env) \<and>
   cfg_baseURL (createClaudeCodeProvider env None)
     = spec_base_address None (getClaudeCodeBaseUrl env) \<and>
   cfg_baseURL (createOllamaProvider (Some \<lparr>baseURL = Some u, headers = h\<rparr>))
     = spec_base_address (Some u) ''http://localhost:11434'' \<and>
   cfg_baseURL (createOllamaProvider (Some \<lparr>baseURL = None, headers = h\<rparr>))
     = ''http://localhost:11434/v1'' \<and>
   cfg_baseURL (createOllamaProvider None) = ''http://localhost:11434/v1'' \<and>
   cfg_baseURL (createClaudeCodeProvider (env\<lparr>env_CLAUDE_CODE_PORT := None\<rparr>) None)
     = ''http://localhost:3000/v1'' \<and>
   cfg_baseURL (createClaudeCodeProvider (env\<lparr>env_CLAUDE_CODE_PORT := Some ''8080''\<rparr>) None)
     = ''http://localhost:8080/v1'' \<and>
   cfg_baseURL (createClaudeCodeProvider env (Some \<lparr>baseURL = Some (b @ ''/v1''), headers = h\<rparr>))
     = b @ ''/v1'' \<and>
   cfg_baseURL (createOllamaProvider (Some \<lparr>baseURL = Some (b @ ''/v1''), headers = h\<rparr>))
     = b @ ''/v1'' \<and>
   cfg_baseURL (createClaudeCodeProvider env (Some \<lparr>baseURL = Some (b @ ''/v1/''), headers = h\<rparr>))
     = b @ ''/v1'' \<and>
   cfg_baseURL (createOllamaProvider (Some \<lparr>baseURL = Some (b @ ''/v1/''), headers = h\<rparr>))
     = b @ ''/v1'' \<and>
   cfg_baseURL (createClaudeCodeProvider env (Some \<lparr>baseURL = Some (b @ ''//''), headers = h\<rparr>))
     = b @ ''//v1'' \<and>
   cfg_baseURL (createOllamaProvider (Some \<lparr>baseURL = Some (b @ ''//''), headers = h\<rparr>))
     = b @ ''//v1'' \<and>
   (\<not> endsWith b ''/v1'' \<longrightarrow>
      cfg_baseURL (createClaudeCodeProvider env (Some \<lparr>baseURL = Some (b @ ''/''), headers = h\<rparr>))
        = b @ ''/v1'' \<and>
      cfg_baseURL (createOllamaProvider (Some \<lparr>baseURL = Some (b @ ''/''), headers = h\<rparr>))
        = b @ ''/v1'') \<and>
   (\<not> endsWith u ''/'' \<longrightarrow> \<not> endsWith u ''/v1'' \<longrightarrow>
      cfg_baseURL (createClaudeCodeProvider env (Some \<lparr>baseURL = Some u, headers = h\<rparr>))
        = u @ ''/v1'' \<and>
      cfg_baseURL (createOllamaProvider (Some \<lparr>baseURL = Some u, headers = h\<rparr>))
        = u @ ''/v1'') \<and>
   endsWith (cfg_baseURL (createClaudeCodeProvider env options)) ''/v1'' \<and>
   endsWith (cfg_baseURL (createOllamaProvider options)) ''/v1''"
proof -
  have spec: "cfg_baseURL (createClaudeCodeProvider env (Some \<lparr>baseURL = Some u, headers = h\<rparr>))
       = spec_base_address (Some u) (getClaudeCodeBaseUrl env)"
    "cfg_baseURL (createClaudeCodeProvider env (Some \<lparr>baseURL = None, headers = h\<rparr>))
       = spec_base_address None (getClaudeCodeBaseUrl env)"
    "cfg_baseURL (createClaudeCodeProvider env None)
       = spec_base_address None (getClaudeCodeBaseUrl env)"
    "cfg_baseURL (createOllamaProvider (Some \<lparr>baseURL = Some u, headers = h\<rparr>))
       = spec_base_address (Some u) ''http://localhost:11434''"
    by (simp_all add: claude_base ollama_base(1) spec_base_address_code Let_def)
  have dflt: "cfg_baseURL (createOllamaProvider (Some \<lparr>baseURL = None, headers = h\<rparr>))
       = ''http://localhost:11434/v1''"
    "cfg_baseURL (createOllamaProvider None) = ''http://localhost:11434/v1''"
    "cfg_baseURL (createClaudeCodeProvider (env\<lparr>env_CLAUDE_CODE_PORT := None\<rparr>) None)
       = ''http://localhost:3000/v1''"
    "cfg_baseURL (createClaudeCodeProvider (env\<lparr>env_CLAUDE_CODE_PORT := Some ''8080''\<rparr>) None)
       = ''http://localhost:8080/v1''"
    by (simp_all add: ollama_base claude_base(3) default_url withoutTrailingSlash_def endsWith_code)
  have v1: "cfg_baseURL (createClaudeCodeProvider env (Some \<lparr>baseURL = Some (b @ ''/v1''), headers = h\<rparr>))
       = b @ ''/v1''"
    "cfg_baseURL (createOllamaProvider (Some \<lparr>baseURL = Some (b @ ''/v1''), headers = h\<rparr>))
       = b @ ''/v1''"
    by (simp_all only: claude_base(1) ollama_base(1) strip_v1 endsWith_v1_append if_True)
  have "b @ ''/v1/'' = (b @ ''/v1'') @ ''/''" by simp
  then have s1: "withoutTrailingSlash (b @ ''/v1/'') = b @ ''/v1''"
    by (simp only: strip_slash)
  have v1s: "cfg_baseURL (createClaudeCodeProvider env (Some \<lparr>baseURL = Some (b @ ''/v1/''), headers = h\<rparr>))
       = b @ ''/v1''"
    "cfg_baseURL (createOllamaProvider (Some \<lparr>baseURL = Some (b @ ''/v1/''), headers = h\<rparr>))
       = b @ ''/v1''"
    by (simp_all only: claude_base(1) ollama_base(1) s1 endsWith_v1_append if_True)
  have "b @ ''//'' = (b @ ''/'') @ ''/''" by simp
  then have s2: "withoutTrailingSlash (b @ ''//'') = b @ ''/''"
    by (simp only: strip_slash)
  have n2: "\<not> endsWith (b @ ''/'') ''/v1''"
    by (simp add: endsWith_code)
  have ss: "cfg_baseURL (createClaudeCodeProvider env (Some \<lparr>baseURL = Some (b @ ''//''), headers = h\<rparr>))
       = b @ ''//v1''"
    "cfg_baseURL (createOllamaProvider (Some \<lparr>baseURL = Some (b @ ''//''), headers = h\<rparr>))
       = b @ ''//v1''"
    using n2 by (simp_all add: claude_base(1) ollama_base(1) s2)
  have sl: "\<not> endsWith b ''/v1'' \<longrightarrow>
      cfg_baseURL (createClaudeCodeProvider env (Some \<lparr>baseURL = Some (b @ ''/''), headers = h\<rparr>))
        = b @ ''/v1'' \<and>
      cfg_baseURL (createOllamaProvider (Some \<lparr>baseURL = Some (b @ ''/''), headers = h\<rparr>))
        = b @ ''/v1''"
    by (simp only: claude_base(1) ollama_base(1) strip_slash) simp
  have pl: "\<not> endsWith u ''/'' \<longrightarrow> \<not> endsWith u ''/v1'' \<longrightarrow>
      cfg_baseURL (createClaudeCodeProvider env (Some \<lparr>baseURL = Some u, headers = h\<rparr>))
        = u @ ''/v1'' \<and>
      cfg_baseURL (createOllamaProvider (Some \<lparr>baseURL = Some u, headers = h\<rparr>))
        = u @ ''/v1''"
    by (simp add: claude_base(1) ollama_base(1) strip_none)
  have e: "endsWith (cfg_baseURL (createClaudeCodeProvider env options)) ''/v1''"
    "endsWith (cfg_baseURL (createOllamaProvider options)) ''/v1''"
    by (simp_all add: createClaudeCodeProvider_def createOllamaProvider_def Let_def v1_suffix)
  from spec dflt v1 v1s ss sl pl e show ?thesis by blast
qed

theorem provider_base_url_witness:
  "\<not> endsWith ''http://host:8000/api'' ''/v1'' \<and>
   \<not> endsWith ''http://host:8000/api'' ''/'' \<and>
   cfg_baseURL (createOllamaProvider (Some \<lparr>baseURL = Some ''http://host:8000/api/'', headers = None\<rparr>))
     = ''http://host:8000/api/v1'' \<and>
   cfg_baseURL (createClaudeCodeProvider bare_env (Some \<lparr>baseURL = Some ''http://host:8000/api/'', headers = None\<rparr>))
     = ''http://host:8000/api/v1'' \<and>
   cfg_baseURL (createOllamaProvider (Some \<lparr>baseURL = Some ''http://host:8000/api'', headers = None\<rparr>))
     = ''http://host:8000/api/v1'' \<and>
   cfg_baseURL (createClaudeCodeProvider bare_env (Some \<lparr>baseURL = Some ''http://host:8000/api'', headers = None\<rparr>))
     = ''http://host:8000/api/v1''"
proof -
  let ?u = "''http://host:8000/api''"
  have n: "\<not> endsWith ?u ''/v1''" "\<not> endsWith ?u ''/''"
    by (simp_all add: endsWith_code)
  note t = provider_base_url[where env = bare_env and h = None and b = ?u and u = ?u]
  from t n(1)
  have a: "cfg_baseURL (createClaudeCodeProvider bare_env (Some \<lparr>baseURL = Some (?u @ ''/''), headers = None\<rparr>))
        = ?u @ ''/v1''"
    and b: "cfg_baseURL (createOllamaProvider (Some \<lparr>baseURL = Some (?u @ ''/''), headers = None\<rparr>))
        = ?u @ ''/v1''"
    by blast+
  from t n
  have c: "cfg_baseURL (createClaudeCodeProvider bare_env (Some \<lparr>baseURL = Some ?u, headers = None\<rparr>))
        = ?u @ ''/v1''"
    and d: "cfg_baseURL (createOllamaProvider (Some \<lparr>baseURL = Some ?u, headers = None\<rparr>))
        = ?u @ ''/v1''"
    by blast+
  from n a b c d show ?thesis by simp
qed

section \<open>The capability scan\<close>

lemma filter_directories_apply:
  "filter_directories env dir items s =
     (Inr (filter (\<lambda>item. fs_isDirectory env (path_join env [dir, item]) = Inr True) items),
      after s (map (\<lambda>item. Stat (path_join env [dir, item])) items))"
proof (induction items arbitrary: s)
  case Nil
  show ?case by (simp add: io_return_def after_simps)
next
  case (Cons item items)
  show ?case
    by (cases "fs_isDirectory env (path_join env [dir, item])")
       (simp_all add: io_bind_def io_try_def statSync_apply io_return_def Cons.IH after_simps)
qed

lemma listDirectories_apply:
  "listDirectories env dir s = (Inr (dir_names env dir), after s (dir_events env dir))"
  by (simp add: listDirectories_def dir_names_def dir_events_def io_try_def io_bind_def
      existsSync_apply readdirSync_apply filter_directories_apply io_return_def after_simps
      split: sum.splits)

lemma scan_group_apply:
  "scan_group env dir s =
     (Inr (if fs_exists env dir then Some (dir_names env dir) else None),
      after s (scan_events env dir))"
  by (simp add: scan_group_def scan_events_def io_bind_def existsSync_apply listDirectories_apply
      io_return_def after_simps)

lemma dir_names_missing: "\<not> fs_exists env dir \<Longrightarrow> dir_names env dir = []"
  by (simp add: dir_names_def)

lemma readSettings_apply:
  "readClaudeCodeSettings env s = (Inr (settings_value env), after s (settings_events env))"
  by (simp add: readClaudeCodeSettings_def settings_value_def settings_events_def settingsPath_def
      io_try_def io_bind_def existsSync_apply readFileSync_apply JSON_parse_apply io_return_def
      after_simps Let_def split: sum.splits)

lemma js_length_Nil: "js_length [] = 0"
  by (simp add: js_length_def)

lemma apply_settings_apply:
  assumes "models c = []" and "mcpServers c = []"
  shows "apply_settings v c s = (Inr (c\<lparr>models := models_of v, mcpServers := mcpServers_of v\<rparr>), s)"
proof (cases v)
  case (JObj kvs)
  have m: "(case map_of kvs ''models'' of
              None \<Rightarrow> c
            | Some w \<Rightarrow> if truthy w \<and> isArray w then c\<lparr>models := array_items w\<rparr> else c)
           = c\<lparr>models := models_of v\<rparr>"
  proof (cases "map_of kvs ''models''")
    case None
    with JObj assms show ?thesis by (simp add: models_of_def)
  next
    case (Some w)
    with JObj assms show ?thesis by (cases w) (simp_all add: models_of_def)
  qed
  show ?thesis
  proof (cases "map_of kvs ''mcpServers''")
    case None
    with JObj m assms show ?thesis
      by (simp add: apply_settings_def mcpServers_of_def io_return_def Let_def)
  next
    case (Some w)
    with JObj m assms show ?thesis
      by (cases w)
         (simp_all add: apply_settings_def mcpServers_of_def io_return_def io_bind_def Let_def
            js_length_Nil)
  qed
qed (use assms in \<open>simp_all add: apply_settings_def models_of_def mcpServers_of_def io_return_def\<close>)

lemma capabilities_apply:
  "detectClaudeCodeCapabilities env s =
     (Inr (capabilities_value env (manualClaudeCodePath s)),
      after s (capabilities_events env (manualClaudeCodePath s)))"
  by (simp add: detectClaudeCodeCapabilities_def capabilities_value_def capabilities_events_def
      io_bind_def io_try_def detect_apply existsSync_apply scan_group_apply readSettings_apply
      apply_settings_apply io_return_def after_simps Let_def claudeDir_def[symmetric]
      agentsDir_def[symmetric] pluginsDir_def[symmetric] dir_names_missing empty_capabilities_def
      scan_value_def)


lemma dir_names_unreadable: "fs_readdir env dir = Inl e \<Longrightarrow> dir_names env dir = []"
  by (simp add: dir_names_def)

lemma settings_unreadable: "fs_readFile env (settingsPath env) = Inl e \<Longrightarrow> settings_value env = JNull"
  by (simp add: settings_value_def)

lemma settings_unparsable:
  "fs_readFile env (settingsPath env) = Inr txt \<Longrightarrow> json_parse env txt = Inl e \<Longrightarrow> settings_value env = JNull"
  by (simp add: settings_value_def)

text \<open>
  Claim C7. For an installed provider whose \<^verbatim>\<open>~/.claude\<close> directory exists, the scan
  returns a summary in which every group holds what its own source gives. A group whose
  source cannot be read (the agents directory, the plugins directory, the settings file
  for models and servers) is empty, and the scan is not aborted: the other groups are
  populated as usual.
\<close>

theorem scan_tolerates_unreadable_group:
  assumes "fst (detectClaudeCodePath env s) = Inr (Some p)" and "p \<noteq> []"
    and "fs_exists env (claudeDir env)"
  shows "\<exists>caps. fst (detectClaudeCodeCapabilities env s) = Inr (Some caps) \<and>
           agents caps = map JStr (dir_names env (agentsDir env)) \<and>
           plugins caps = map JStr (dir_names env (pluginsDir env)) \<and>
           models caps = models_of (settings_value env) \<and>
           mcpServers caps = mcpServers_of (settings_value env) \<and>
           ((\<exists>e. fs_readdir env (agentsDir env) = Inl e) \<longrightarrow> agents caps = []) \<and>
           ((\<exists>e. fs_readdir env (pluginsDir env) = Inl e) \<longrightarrow> plugins caps = []) \<and>
           ((\<exists>e. fs_readFile env (settingsPath env) = Inl e) \<longrightarrow> models caps = [] \<and> mcpServers caps = [])"
proof -
  from assms have "fst (detectClaudeCodeCapabilities env s) = Inr (Some (scan_value env))"
    by (simp add: capabilities_apply capabilities_value_def detect_apply truthy_str_def)
  moreover have "(\<exists>e. fs_readdir env (agentsDir env) = Inl e) \<longrightarrow> agents (scan_value env) = []"
    by (auto simp: scan_value_def dir_names_unreadable)
  moreover have "(\<exists>e. fs_readdir env (pluginsDir env) = Inl e) \<longrightarrow> plugins (scan_value env) = []"
    by (auto simp: scan_value_def dir_names_unreadable)
  moreover have "(\<exists>e. fs_readFile env (settingsPath env) = Inl e) \<longrightarrow>
      models (scan_value env) = [] \<and> mcpServers (scan_value env) = []"
    by (auto simp: scan_value_def settings_unreadable models_of_def mcpServers_of_def)
  ultimately show ?thesis by (simp add: scan_value_def)
qed

lemma scan_env_simps:
  "fs_exists scan_env = (\<lambda>p. p \<in> set [''/usr/local/bin/claude'', ''/home/u/.claude'',
                                   ''/home/u/.claude/agents'', ''/home/u/.claude/plugins'',
                                   ''/home/u/.claude/settings.json''])"
  "fs_readdir scan_env = (\<lambda>p. if p = ''/home/u/.claude/plugins'' then Inr [''fmt'', ''README'']
                           else Inl (new_Error ''EACCES: permission denied''))"
  "fs_isDirectory scan_env = (\<lambda>p. Inr (p = ''/home/u/.claude/plugins/fmt''))"
  "fs_readFile scan_env = (\<lambda>p. Inr ''{}'')"
  "json_parse scan_env = (\<lambda>t. Inr (JObj [(''models'', JArr [JStr ''opus''])]))"
  "os_platform scan_env = Linux"
  "os_homedir scan_env = ''/home/u''"
  "path_join scan_env = simple_join"
  by (simp_all add: scan_env_def bare_env_def)

lemma scan_env_dirs:
  "claudeDir scan_env = ''/home/u/.claude''"
  "agentsDir scan_env = ''/home/u/.claude/agents''"
  "pluginsDir scan_env = ''/home/u/.claude/plugins''"
  "settingsPath scan_env = ''/home/u/.claude/settings.json''"
  by (simp_all add: claudeDir_def agentsDir_def pluginsDir_def settingsPath_def scan_env_simps
      simple_join_def)

lemma scan_env_detect:
  "fst (detectClaudeCodePath scan_env fresh_st) = Inr (Some ''/usr/local/bin/claude'')"
  by (simp add: detect_apply detect_value_def truthy_str_def fresh_st_def CLAUDE_CODE_PATHS_def
      unix_paths_def scan_env_simps simple_join_def)

lemma scan_env_values:
  "dir_names scan_env (pluginsDir scan_env) = [''fmt'']"
  "dir_names scan_env (agentsDir scan_env) = []"
  "settings_value scan_env = JObj [(''models'', JArr [JStr ''opus''])]"
  by (simp_all add: scan_env_dirs dir_names_def settings_value_def scan_env_simps simple_join_def)

lemma scan_env_capabilities:
  "fst (detectClaudeCodeCapabilities scan_env fresh_st) =
     Inr (Some \<lparr>mcpServers = [], skills = [], plugins = [JStr ''fmt''], agents = [],
               subAgents = [], models = [JStr ''opus'']\<rparr>)"
proof -
  have "detect_value scan_env (manualClaudeCodePath fresh_st) = Some ''/usr/local/bin/claude''"
    using scan_env_detect by (simp add: detect_apply)
  moreover have "fs_exists scan_env (claudeDir scan_env)"
    by (simp add: scan_env_dirs scan_env_simps)
  ultimately show ?thesis
    by (simp add: capabilities_apply capabilities_value_def scan_value_def truthy_str_def
        scan_env_values models_of_def mcpServers_of_def)
qed

theorem scan_tolerates_unreadable_group_witness:
  "fst (detectClaudeCodePath scan_env fresh_st) = Inr (Some ''/usr/local/bin/claude'') \<and>
   fs_exists scan_env (claudeDir scan_env) \<and>
   fs_exists scan_env (agentsDir scan_env) \<and>
   fs_readdir scan_env (agentsDir scan_env) = Inl (new_Error ''EACCES: permission denied'') \<and>
   fst (detectClaudeCodeCapabilities scan_env fresh_st) =
     Inr (Some \<lparr>mcpServers = [], skills = [], plugins = [JStr ''fmt''], agents = [],
               subAgents = [], models = [JStr ''opus'']\<rparr>) \<and>
   agents \<lparr>mcpServers = [], skills = [], plugins = [JStr ''fmt''], agents = [],
               subAgents = [], models = [JStr ''opus'']\<rparr> = []"
proof -
  have h2: "fs_exists scan_env (claudeDir scan_env)" "fs_exists scan_env (agentsDir scan_env)"
    by (simp_all add: scan_env_dirs scan_env_simps)
  have h3: "fs_readdir scan_env (agentsDir scan_env) = Inl (new_Error ''EACCES: permission denied'')"
    by (simp add: scan_env_dirs scan_env_simps)
  from scan_tolerates_unreadable_group[OF scan_env_detect _ h2(1)] h3
  obtain caps where c: "fst (detectClaudeCodeCapabilities scan_env fresh_st) = Inr (Some caps)"
    and a: "agents caps = []"
    by auto
  from c have "caps = \<lparr>mcpServers = [], skills = [], plugins = [JStr ''fmt''], agents = [],
               subAgents = [], models = [JStr ''opus'']\<rparr>"
    by (simp add: scan_env_capabilities)
  with c a scan_env_detect h2 h3 show ?thesis by simp
qed

text \<open>
  Claim C10. Every summary \<open>detectClaudeCodeCapabilities\<close> returns has empty \<open>skills\<close>
  and empty \<open>subAgents\<close>.
\<close>

theorem skills_and_subAgents_empty:
  assumes "fst (detectClaudeCodeCapabilities env s) = Inr (Some caps)"
  shows "skills caps = [] \<and> subAgents caps = []"
  using assms
  by (auto simp: capabilities_apply capabilities_value_def scan_value_def split: if_splits)

theorem skills_and_subAgents_empty_witness:
  "fst (detectClaudeCodeCapabilities scan_env fresh_st) =
     Inr (Some \<lparr>mcpServers = [], skills = [], plugins = [JStr ''fmt''], agents = [],
               subAgents = [], models = [JStr ''opus'']\<rparr>) \<and>
   skills \<lparr>mcpServers = [], skills = [], plugins = [JStr ''fmt''], agents = [],
               subAgents = [], models = [JStr ''opus'']\<rparr> = [] \<and>
   subAgents \<lparr>mcpServers = [], skills = [], plugins = [JStr ''fmt''], agents = [],
               subAgents = [], models = [JStr ''opus'']\<rparr> = []"
proof -
  have h: "fst (detectClaudeCodeCapabilities scan_env fresh_st) =
     Inr (Some \<lparr>mcpServers = [], skills = [], plugins = [JStr ''fmt''], agents = [],
               subAgents = [], models = [JStr ''opus'']\<rparr>)"
    by (rule scan_env_capabilities)
  show ?thesis using skills_and_subAgents_empty[OF h] h by simp
qed

section \<open>The session table\<close>

lemma length_filter_map_le:
  assumes "\<And>x. P (f x) \<Longrightarrow> P x"
  shows "length (filter P (filter Q (map f xs))) \<le> length (filter P xs)"
proof (induction xs)
  case Nil
  show ?case by simp
next
  case (Cons x xs)
  then show ?case using assms[of x] by (auto simp: le_SucI)
qed

lemma active_for_terminate:
  assumes "st \<noteq> Active"
  shows "length (active_for (deregister (set_status m sid st) sid) c) \<le> length (active_for m c)"
proof -
  let ?P = "\<lambda>x. status x = Active \<and> conversationId x = c"
  let ?f = "\<lambda>x. if sessionId x = sid then x\<lparr>status := st\<rparr> else x"
  have "\<And>x. ?P (?f x) \<Longrightarrow> ?P x" using assms by (auto split: if_splits)
  then have "length (filter ?P (filter (\<lambda>x. sessionId x \<noteq> sid) (map ?f (table m))))
               \<le> length (filter ?P (table m))"
    by (rule length_filter_map_le)
  then show ?thesis by (simp add: active_for_def deregister_def set_status_def)
qed

lemma active_for_on_chunk: "length (active_for (on_chunk m sid u) c) = length (active_for m c)"
proof (cases u)
  case None
  then show ?thesis by (simp add: on_chunk_def)
next
  case (Some d)
  have "length (filter (\<lambda>x. status x = Active \<and> conversationId x = c)
           (map (\<lambda>x. if sessionId x = sid \<and> status x = Active
                      then x\<lparr>cumulativeUsage := add_usage (cumulativeUsage x) d\<rparr> else x) xs))
        = length (filter (\<lambda>x. status x = Active \<and> conversationId x = c) xs)" for xs
    by (induction xs) auto
  with Some show ?thesis by (simp add: on_chunk_def active_for_def)
qed

lemma active_for_start:
  assumes "start m c' prov now = Inr (sid, m')" and "length (active_for m c) \<le> 1"
  shows "length (active_for m' c) \<le> 1"
proof -
  from assms(1) have e: "active_for m c' = []"
    and m': "m' = m\<lparr>table := table m @ [\<lparr>sessionId = nextSessionId m, conversationId = c',
                 providerId = prov, status = Active, startedAt = now,
                 cumulativeUsage = \<lparr>promptTokens = 0, completionTokens = 0, contextWindow = 0\<rparr>\<rparr>],
               nextSessionId := Suc (nextSessionId m)\<rparr>"
    by (auto simp: start_def Let_def split: if_splits)
  show ?thesis
  proof (cases "c = c'")
    case True
    with e m' show ?thesis by (simp add: active_for_def)
  next
    case False
    with m' assms(2) show ?thesis by (simp add: active_for_def)
  qed
qed

lemma step_preserves:
  assumes "length (active_for m c) \<le> 1"
  shows "length (active_for (step m cmd) c) \<le> 1"
proof (cases cmd)
  case (Start c' prov now)
  show ?thesis
  proof (cases "start m c' prov now")
    case (Inl e)
    with Start assms show ?thesis by simp
  next
    case (Inr r)
    obtain sid m' where r: "r = (sid, m')" by (cases r)
    with Inr Start active_for_start[OF _ assms, of c' prov now sid m'] show ?thesis by simp
  qed
next
  case (Chunk sid u)
  with assms show ?thesis by (simp add: active_for_on_chunk)
next
  case (End sid)
  have "length (active_for (deregister (set_status m sid Completed) sid) c) \<le> length (active_for m c)"
    by (rule active_for_terminate) simp
  with End assms show ?thesis by (simp add: on_end_def)
next
  case (Abort sid)
  have "length (active_for (deregister (set_status m sid Aborted) sid) c) \<le> length (active_for m c)"
    by (rule active_for_terminate) simp
  with Abort assms show ?thesis by (simp add: abort_def)
next
  case (TransportError sid)
  have "length (active_for (deregister (set_status m sid Failed) sid) c) \<le> length (active_for m c)"
    by (rule active_for_terminate) simp
  with TransportError assms show ?thesis by (simp add: on_error_def)
qed

lemma run_preserves:
  "length (active_for m c) \<le> 1 \<Longrightarrow> length (active_for (run_commands m cmds) c) \<le> 1"
proof (induction cmds arbitrary: m)
  case Nil
  then show ?case by (simp add: run_commands_def)
next
  case (Cons cmd cmds)
  from Cons.prems have "length (active_for (step m cmd) c) \<le> 1" by (rule step_preserves)
  then have "length (active_for (run_commands (step m cmd) cmds) c) \<le> 1" by (rule Cons.IH)
  then show ?case by (simp add: run_commands_def)
qed

text \<open>
  Claim C1. In every state the Session Manager reaches from the empty table, and for
  every conversation, at most one registered session is Active for it; each further
  operation (start, chunk, end, abort, transport error) leaves it so.
\<close>

theorem at_most_one_active_session:
  "length (active_for (run_commands init_manager cmds) c) \<le> 1 \<and>
   length (active_for (step (run_commands init_manager cmds) cmd) c) \<le> 1 \<and>
   card {x \<in> set (table (run_commands init_manager cmds)). status x = Active \<and> conversationId x = c} \<le> 1"
proof -
  have i: "length (active_for init_manager c) \<le> 1"
    by (simp add: active_for_def init_manager_def)
  then have r: "length (active_for (run_commands init_manager cmds) c) \<le> 1"
    by (rule run_preserves)
  have "{x \<in> set (table (run_commands init_manager cmds)). status x = Active \<and> conversationId x = c}
          = set (active_for (run_commands init_manager cmds) c)"
    by (auto simp: active_for_def)
  then have "card {x \<in> set (table (run_commands init_manager cmds)). status x = Active \<and> conversationId x = c}
          \<le> length (active_for (run_commands init_manager cmds) c)"
    by (simp add: card_length)
  with r step_preserves[OF r] show ?thesis by simp
qed

text \<open>The table is not trivially empty: a start registers an Active session, and a
  second start for the same conversation is rejected.\<close>

lemma start_twice:
  "fst (projr (start init_manager 7 ''claudecode'' 0)) = 0 \<and>
   start (snd (projr (start init_manager 7 ''claudecode'' 0))) 7 ''claudecode'' 1 = Inl ConversationBusy"
  by (simp add: start_def init_manager_def active_for_def Let_def)

end
